theory Spec2Isabelle
  imports Complex_Main "HOL-Library.List_Lexorder" "HOL-Library.Multiset"
begin

section \<open>parse\_workouts.py: the workbook converter\<close>

text \<open>
  The script reads \<^verbatim>\<open>workouts.xlsx\<close>, writes every sheet as a list of row
  dictionaries to \<^verbatim>\<open>workouts_data.json\<close>, collects four reference sets from five
  fixed columns and writes them, sorted, to three markdown files under
  \<^verbatim>\<open>../docs\<close>. The model below follows \<^verbatim>\<open>parse_workouts_excel\<close> line by line.
  What the operating system may do to a write (a full disk, a read-only directory) is
  outside the model.
\<close>

subsection \<open>Python strings\<close>

text \<open>
  A Python \<^verbatim>\<open>str\<close> is a sequence of Unicode code points. It is modelled as a list of
  natural numbers; the lexicographic order on such lists is
  Python's order on strings (code point by code point, a proper prefix first).
\<close>

type_synonym pystr = "nat list"

definition py :: "string \<Rightarrow> pystr" where
  "py s = map of_char s"

text \<open>\<^verbatim>\<open>str.isspace\<close> on one code point: the Unicode white space characters.\<close>

definition isspace :: "nat \<Rightarrow> bool" where
  "isspace c \<longleftrightarrow>
     (9 \<le> c \<and> c \<le> 13) \<or> (28 \<le> c \<and> c \<le> 32) \<or> c = 133 \<or> c = 160 \<or> c = 5760 \<or>
     (8192 \<le> c \<and> c \<le> 8202) \<or> c = 8232 \<or> c = 8233 \<or> c = 8239 \<or> c = 8287 \<or>
     c = 12288"

text \<open>\<^verbatim>\<open>s.strip()\<close>: white space removed at both ends.\<close>

definition strip :: "pystr \<Rightarrow> pystr" where
  "strip s = rev (dropWhile isspace (rev (dropWhile isspace s)))"

text \<open>
  \<^verbatim>\<open>s.split(sep)\<close> for a separator of one code point: the segments between the
  separators, empty segments kept; the empty string gives one empty segment.
\<close>

fun split_on :: "nat \<Rightarrow> pystr \<Rightarrow> pystr list" where
  "split_on c [] = [[]]"
| "split_on c (x # xs) =
     (if x = c then [] # split_on c xs
      else (case split_on c xs of
              [] \<Rightarrow> [[x]]
            | seg # segs \<Rightarrow> (x # seg) # segs))"

text \<open>The code point of the comma and of the line feed.\<close>

definition comma :: nat where
  "comma = 44"

definition nl :: pystr where
  "nl = [10]"

text \<open>Decimal digits of a natural number, and the same padded with zeros to a width.\<close>

function dec :: "nat \<Rightarrow> pystr" where
  "dec n = (if n < 10 then [48 + n] else dec (n div 10) @ [48 + n mod 10])"
  by pat_completeness auto
termination
  by (relation "measure (\<lambda>n. n)") auto

definition zpad :: "nat \<Rightarrow> nat \<Rightarrow> pystr" where
  "zpad w n = replicate (w - length (dec n)) 48 @ dec n"

definition str_int :: "int \<Rightarrow> pystr" where
  "str_int i = (if i < 0 then py ''-'' @ dec (nat (- i)) else dec (nat i))"

subsection \<open>Cell values\<close>

text \<open>
  The values a row dictionary can hold after \<^verbatim>\<open>to_dict(orient='records')\<close>:
  \<^verbatim>\<open>None\<close>, text, integers, floats, booleans, date-times (year, month, day, hour,
  minute, second, microsecond; a \<^verbatim>\<open>pd.Timestamp\<close> is one), dates and times of day.
  A finite float is the rational it denotes. A float that is not a number is
  \<open>PyNaN\<close>: it is unequal to every float, itself included, so what tells two of them
  apart is which object each is, and \<open>PyNaN\<close> carries the place of the cell the
  object was made for (sheet name, row, column). \<open>PyNaT\<close> is \<^verbatim>\<open>pd.NaT\<close>, the one
  object pandas has for a missing date-time; it is an instance of
  \<^verbatim>\<open>datetime.datetime\<close>.
\<close>

datatype pyval =
    PyNone
  | PyStr pystr
  | PyInt int
  | PyFloat rat
  | PyBool bool
  | PyDatetime nat nat nat nat nat nat nat
  | PyDate nat nat nat
  | PyTime nat nat nat nat
  | PyNaN pystr nat nat
  | PyNaT

text \<open>A cell of a DataFrame: missing (\<^verbatim>\<open>NaN\<close>, \<^verbatim>\<open>NaT\<close>) or a value.\<close>

datatype cell = NaN | Cell pyval

text \<open>\<^verbatim>\<open>pd.notna\<close> on one cell: \<^verbatim>\<open>None\<close> counts as missing too.\<close>

fun notna :: "cell \<Rightarrow> bool" where
  "notna NaN = False"
| "notna (Cell PyNone) = False"
| "notna (Cell (PyNaN sheet i j)) = False"
| "notna (Cell PyNaT) = False"
| "notna (Cell v) = True"

text \<open>
  Python's truth value of a cell value (what \<^verbatim>\<open>if v:\<close> tests). A float is false
  only when it is zero, so not-a-number is true; \<^verbatim>\<open>pd.NaT\<close> defines no truth value
  of its own and is true like every date-time.
\<close>

fun truthy :: "pyval \<Rightarrow> bool" where
  "truthy PyNone = False"
| "truthy (PyStr s) = (s \<noteq> [])"
| "truthy (PyInt i) = (i \<noteq> 0)"
| "truthy (PyFloat r) = (r \<noteq> 0)"
| "truthy (PyBool b) = b"
| "truthy (PyDatetime y mo d h mi s us) = True"
| "truthy (PyDate y mo d) = True"
| "truthy (PyTime h mi s us) = True"
| "truthy (PyNaN sheet i j) = True"
| "truthy PyNaT = True"

text \<open>\<^verbatim>\<open>date.isoformat()\<close> and \<^verbatim>\<open>datetime.isoformat()\<close>.\<close>

definition iso_date :: "nat \<Rightarrow> nat \<Rightarrow> nat \<Rightarrow> pystr" where
  "iso_date y mo d = zpad 4 y @ py ''-'' @ zpad 2 mo @ py ''-'' @ zpad 2 d"

definition iso_time :: "nat \<Rightarrow> nat \<Rightarrow> nat \<Rightarrow> nat \<Rightarrow> pystr" where
  "iso_time h mi s us =
     zpad 2 h @ py '':'' @ zpad 2 mi @ py '':'' @ zpad 2 s @
     (if us = 0 then [] else py ''.'' @ zpad 6 us)"

definition iso_datetime :: "pystr \<Rightarrow> nat \<Rightarrow> nat \<Rightarrow> nat \<Rightarrow> nat \<Rightarrow> nat \<Rightarrow> nat \<Rightarrow> nat \<Rightarrow> pystr" where
  "iso_datetime sep y mo d h mi s us = iso_date y mo d @ sep @ iso_time h mi s us"

text \<open>
  \<^verbatim>\<open>convert_for_json\<close> (lines 6 to 9): a date or a date-time becomes its
  \<^verbatim>\<open>isoformat()\<close>, every other object is returned as it is. \<^verbatim>\<open>pd.NaT\<close> passes
  the \<^verbatim>\<open>isinstance\<close> test and its \<^verbatim>\<open>isoformat()\<close> is the string \<^verbatim>\<open>NaT\<close>.
\<close>

fun convert_for_json :: "pyval \<Rightarrow> pyval" where
  "convert_for_json (PyDatetime y mo d h mi s us) =
     PyStr (iso_datetime (py ''T'') y mo d h mi s us)"
| "convert_for_json (PyDate y mo d) = PyStr (iso_date y mo d)"
| "convert_for_json PyNaT = PyStr (py ''NaT'')"
| "convert_for_json obj = obj"

subsection \<open>Dictionaries and DataFrames\<close>

text \<open>
  A Python \<^verbatim>\<open>dict\<close> keeps its keys in insertion order; storing under a key that is
  present replaces the value where the key stands.
\<close>

type_synonym ('k, 'v) dict = "('k \<times> 'v) list"

fun dict_set :: "('k, 'v) dict \<Rightarrow> 'k \<Rightarrow> 'v \<Rightarrow> ('k, 'v) dict" where
  "dict_set [] k v = [(k, v)]"
| "dict_set ((k', v') # d) k v =
     (if k' = k then (k, v) # d else (k', v') # dict_set d k v)"

fun dict_get :: "('k, 'v) dict \<Rightarrow> 'k \<Rightarrow> 'v option" where
  "dict_get [] k = None"
| "dict_get ((k', v') # d) k = (if k' = k then Some v' else dict_get d k)"

text \<open>\<^verbatim>\<open>dict(pairs)\<close>: the pairs stored one after the other.\<close>

definition dict_of :: "('k \<times> 'v) list \<Rightarrow> ('k, 'v) dict" where
  "dict_of kvs = fold (\<lambda>(k, v) d. dict_set d k v) kvs []"

text \<open>
  A DataFrame as \<^verbatim>\<open>pd.read_excel\<close> returns it: the column labels, the type pandas
  gave each column, and the rows. A column of numbers with an empty cell is
  \<^verbatim>\<open>float64\<close>, a column of date-times is \<^verbatim>\<open>datetime64\<close>, a column of text or of
  mixed values is \<^verbatim>\<open>object\<close>. Columns of integers or of booleans have no missing
  cell, and line 25 treats their cells like those of an \<^verbatim>\<open>object\<close> column, so they
  are modelled as such. A column with no type listed is an \<^verbatim>\<open>object\<close> column.
\<close>

datatype dtype = Object | Float64 | Datetime64

record dataframe =
  columns :: "pystr list"
  dtypes :: "dtype list"
  rows :: "cell list list"

type_synonym row = "(pystr, pyval) dict"

type_synonym workbook = "(pystr \<times> dataframe) list"

definition dtype_of :: "dataframe \<Rightarrow> nat \<Rightarrow> dtype" where
  "dtype_of df j = (if j < length (dtypes df) then dtypes df ! j else Object)"

text \<open>
  \<^verbatim>\<open>df.where(pd.notna(df), None)\<close> followed by the boxing of \<^verbatim>\<open>to_dict\<close>, on one
  cell, as pandas 1.3 and later do it: \<^verbatim>\<open>where\<close> replaces the fill value
  \<^verbatim>\<open>None\<close> by the column type's own missing value when the type has one. So a
  missing cell becomes \<^verbatim>\<open>None\<close> in an \<^verbatim>\<open>object\<close> column only; in a
  \<^verbatim>\<open>float64\<close> column it stays not-a-number and \<^verbatim>\<open>to_dict\<close> hands it over as a
  new float object \<open>nan\<close>; in a \<^verbatim>\<open>datetime64\<close> column it stays \<^verbatim>\<open>NaT\<close>.
\<close>

fun where_notna :: "dtype \<Rightarrow> pyval \<Rightarrow> cell \<Rightarrow> pyval" where
  "where_notna d nan (Cell v) =
     (if notna (Cell v) then v
      else (case d of Object \<Rightarrow> PyNone | Float64 \<Rightarrow> nan | Datetime64 \<Rightarrow> PyNaT))"
| "where_notna d nan NaN =
     (case d of Object \<Rightarrow> PyNone | Float64 \<Rightarrow> nan | Datetime64 \<Rightarrow> PyNaT)"

text \<open>
  \<^verbatim>\<open>to_dict(orient='records')\<close> after it: one dictionary per row, keyed by column
  label.
\<close>

definition to_dict_records :: "pystr \<Rightarrow> dataframe \<Rightarrow> row list" where
  "to_dict_records sheet_name df =
     map (\<lambda>(i, r).
            dict_of (map (\<lambda>(j, label, x).
                            (label, where_notna (dtype_of df j) (PyNaN sheet_name i j) x))
                       (enumerate 0 (zip (columns df) r))))
       (enumerate 0 (rows df))"

text \<open>Lines 20 to 26: the loop over the sheets fills \<^verbatim>\<open>sheets_data\<close>.\<close>

definition read_sheets :: "workbook \<Rightarrow> (pystr, row list) dict" where
  "read_sheets xl =
     fold (\<lambda>(sheet_name, df) sheets_data.
             dict_set sheets_data sheet_name (to_dict_records sheet_name df)) xl []"

subsection \<open>Writing the JSON document\<close>

text \<open>
  What \<^verbatim>\<open>json.dump\<close> can write. \<open>JNaN\<close> is the token \<^verbatim>\<open>NaN\<close>, which Python
  writes for a float that is not a number (\<^verbatim>\<open>allow_nan\<close> is on by default)
  although JSON has no such value.
\<close>

datatype json =
    JNull
  | JBool bool
  | JInt int
  | JFloat rat
  | JNaN
  | JStr pystr
  | JArr "json list"
  | JObj "(pystr \<times> json) list"

datatype error = ValueError | AttributeError | TypeError

text \<open>The values \<^verbatim>\<open>json\<close> encodes by itself, without asking the \<^verbatim>\<open>default\<close> hook.\<close>

fun json_native :: "pyval \<Rightarrow> json option" where
  "json_native PyNone = Some JNull"
| "json_native (PyStr s) = Some (JStr s)"
| "json_native (PyInt i) = Some (JInt i)"
| "json_native (PyFloat r) = Some (JFloat r)"
| "json_native (PyBool b) = Some (JBool b)"
| "json_native (PyNaN sheet i j) = Some JNaN"
| "json_native v = None"

text \<open>
  One value under \<^verbatim>\<open>json.dump(..., default=convert_for_json)\<close>: a value the encoder
  does not know goes through the hook and the hook's result is encoded in its place.
  When the hook hands the object back (its last line, \<^verbatim>\<open>return obj\<close>), the encoder
  meets the same object a second time and raises
  \<^verbatim>\<open>ValueError: Circular reference detected\<close>.
\<close>

definition json_value :: "pyval \<Rightarrow> error + json" where
  "json_value v =
     (case json_native v of
        Some j \<Rightarrow> Inr j
      | None \<Rightarrow>
          (case json_native (convert_for_json v) of
             Some j \<Rightarrow> Inr j
           | None \<Rightarrow> Inl ValueError))"

text \<open>A loop whose body may raise: the first exception ends it.\<close>

fun mapE :: "('a \<Rightarrow> 'e + 'b) \<Rightarrow> 'a list \<Rightarrow> 'e + 'b list" where
  "mapE f [] = Inr []"
| "mapE f (x # xs) =
     (case f x of
        Inl e \<Rightarrow> Inl e
      | Inr y \<Rightarrow> (case mapE f xs of Inl e \<Rightarrow> Inl e | Inr ys \<Rightarrow> Inr (y # ys)))"

fun foldE :: "('a \<Rightarrow> 's \<Rightarrow> 'e + 's) \<Rightarrow> 'a list \<Rightarrow> 's \<Rightarrow> 'e + 's" where
  "foldE f [] s = Inr s"
| "foldE f (x # xs) s =
     (case f x s of Inl e \<Rightarrow> Inl e | Inr s' \<Rightarrow> foldE f xs s')"

definition json_item :: "pystr \<times> pyval \<Rightarrow> error + pystr \<times> json" where
  "json_item kv =
     (case json_value (snd kv) of Inl e \<Rightarrow> Inl e | Inr j \<Rightarrow> Inr (fst kv, j))"

definition json_row :: "row \<Rightarrow> error + json" where
  "json_row r = (case mapE json_item r of Inl e \<Rightarrow> Inl e | Inr kvs \<Rightarrow> Inr (JObj kvs))"

definition json_sheet :: "pystr \<times> row list \<Rightarrow> error + pystr \<times> json" where
  "json_sheet nd =
     (case mapE json_row (snd nd) of
        Inl e \<Rightarrow> Inl e
      | Inr js \<Rightarrow> Inr (fst nd, JArr js))"

text \<open>Line 31: the document \<^verbatim>\<open>json.dump\<close> writes for \<^verbatim>\<open>sheets_data\<close>.\<close>

definition json_dump :: "(pystr, row list) dict \<Rightarrow> error + json" where
  "json_dump sheets_data =
     (case mapE json_sheet sheets_data of
        Inl e \<Rightarrow> Inl e
      | Inr kvs \<Rightarrow> Inr (JObj kvs))"

subsection \<open>The reference sets\<close>

text \<open>
  What a \<^verbatim>\<open>set\<close> takes for the same member: the same object, or two objects that
  are \<^verbatim>\<open>==\<close>. Numbers (booleans among them) compare by value, values of one other
  type by content, values of different types are unequal. Not-a-number and
  \<^verbatim>\<open>pd.NaT\<close> are \<^verbatim>\<open>==\<close> to nothing, so each is the same member only as the same
  object.
\<close>

fun num_val :: "pyval \<Rightarrow> rat option" where
  "num_val (PyInt i) = Some (of_int i)"
| "num_val (PyFloat r) = Some r"
| "num_val (PyBool b) = Some (if b then 1 else 0)"
| "num_val v = None"

definition py_eq :: "pyval \<Rightarrow> pyval \<Rightarrow> bool" where
  "py_eq a b =
     (case (num_val a, num_val b) of
        (Some x, Some y) \<Rightarrow> x = y
      | (None, None) \<Rightarrow> a = b
      | _ \<Rightarrow> False)"

text \<open>
  A Python \<^verbatim>\<open>set\<close>, as the list of its members in the order they came in:
  \<^verbatim>\<open>s.add(x)\<close> keeps the set as it is when a member equal to \<open>x\<close> is there.
\<close>

definition set_add :: "pyval list \<Rightarrow> pyval \<Rightarrow> pyval list" where
  "set_add s x = (if list_ex (\<lambda>y. py_eq y x) s then s else s @ [x])"

record refsets =
  main_movements :: "pyval list"
  accessory_movements :: "pyval list"
  workout_formats :: "pyval list"
  intensity_levels :: "pyval list"

definition empty_sets :: refsets where
  "empty_sets = \<lparr>main_movements = [], accessory_movements = [],
                  workout_formats = [], intensity_levels = []\<rparr>"

text \<open>\<^verbatim>\<open>k in row and row[k]\<close>: the value under \<open>k\<close> when it is there and true.\<close>

definition truthy_cell :: "row \<Rightarrow> pystr \<Rightarrow> pyval option" where
  "truthy_cell row k =
     (case dict_get row k of
        None \<Rightarrow> None
      | Some v \<Rightarrow> (if truthy v then Some v else None))"

text \<open>
  Lines 51 to 52 and 54 to 55: \<^verbatim>\<open>for movement in v.split(','):
  accessory_movements.add(movement.strip())\<close>. Only a string has \<^verbatim>\<open>split\<close>.
\<close>

definition add_split :: "pyval \<Rightarrow> pyval list \<Rightarrow> error + pyval list" where
  "add_split v acc =
     (case v of
        PyStr s \<Rightarrow>
          Inr (fold (\<lambda>movement a. set_add a (PyStr (strip movement))) (split_on comma s) acc)
      | _ \<Rightarrow> Inl AttributeError)"

definition add_split_cell :: "row \<Rightarrow> pystr \<Rightarrow> pyval list \<Rightarrow> error + pyval list" where
  "add_split_cell row k acc =
     (case truthy_cell row k of None \<Rightarrow> Inr acc | Some v \<Rightarrow> add_split v acc)"

definition add_cell :: "row \<Rightarrow> pystr \<Rightarrow> pyval list \<Rightarrow> pyval list" where
  "add_cell row k s = (case truthy_cell row k of None \<Rightarrow> s | Some v \<Rightarrow> set_add s v)"

text \<open>Lines 48 to 59: what one row adds to the four sets.\<close>

definition extract_row :: "row \<Rightarrow> refsets \<Rightarrow> error + refsets" where
  "extract_row row s =
     (let main = add_cell row (py ''Unnamed: 3'') (main_movements s) in
      case add_split_cell row (py ''Unnamed: 5'') (accessory_movements s) of
        Inl e \<Rightarrow> Inl e
      | Inr acc5 \<Rightarrow>
          (case add_split_cell row (py ''Unnamed: 9'') acc5 of
             Inl e \<Rightarrow> Inl e
           | Inr acc9 \<Rightarrow>
               Inr \<lparr>main_movements = main,
                    accessory_movements = acc9,
                    workout_formats = add_cell row (py ''Unnamed: 8'') (workout_formats s),
                    intensity_levels = add_cell row (py ''Unnamed: 7'') (intensity_levels s)\<rparr>))"

text \<open>Lines 41 to 59: every row of every sheet, starting from four empty sets.\<close>

definition extract_references :: "(pystr, row list) dict \<Rightarrow> error + refsets" where
  "extract_references sheets_data = foldE (\<lambda>sd. foldE extract_row (snd sd)) sheets_data empty_sets"

subsection \<open>Writing the markdown files\<close>

text \<open>
  What the program takes from the Python it runs on. \<open>repr_float\<close> stands for
  \<^verbatim>\<open>float.__repr__\<close>: the digits Python prints for a float are not modelled.
  \<open>slot\<close> decides the order in which a \<^verbatim>\<open>set\<close> hands over its members, which
  Python leaves open (it follows the hash values, and those of strings change from one
  run to the next): the members come by rising \<open>slot\<close>. \<open>sort_unordered\<close> stands
  for \<^verbatim>\<open>list.sort\<close> on three or more values that \<^verbatim>\<open><\<close> does not order; what
  comes out of it depends on how the sort merges its runs.
\<close>

record runtime =
  repr_float :: "rat \<Rightarrow> pystr"
  slot :: "pyval \<Rightarrow> nat"
  sort_unordered :: "pyval list \<Rightarrow> pyval list"

definition iter_set :: "runtime \<Rightarrow> pyval list \<Rightarrow> pyval list" where
  "iter_set rt s = sort_key (slot rt) s"

text \<open>
  \<^verbatim>\<open>sorted(s)\<close> on the members a set has handed over. Python orders strings among
  themselves, numbers among themselves, date-times, dates and times of day each among
  themselves; \<^verbatim>\<open><\<close> between values of two of these groups, or on \<^verbatim>\<open>None\<close>,
  raises \<^verbatim>\<open>TypeError\<close>, and a sort of two or more values has to compare across the
  groups when there are several. Not-a-number among the numbers and \<^verbatim>\<open>pd.NaT\<close>
  among the date-times are neither below nor above any value: \<^verbatim>\<open><\<close> is false both
  ways. A sort of two values exchanges them when the second is below the first, so it
  leaves such a pair as it came.
\<close>

datatype kind = KNone | KStr | KNum | KDatetime | KDate | KTime

fun kind_of :: "pyval \<Rightarrow> kind" where
  "kind_of PyNone = KNone"
| "kind_of (PyStr s) = KStr"
| "kind_of (PyInt i) = KNum"
| "kind_of (PyFloat r) = KNum"
| "kind_of (PyBool b) = KNum"
| "kind_of (PyDatetime y mo d h mi s us) = KDatetime"
| "kind_of (PyDate y mo d) = KDate"
| "kind_of (PyTime h mi s us) = KTime"
| "kind_of (PyNaN sheet i j) = KNum"
| "kind_of PyNaT = KDatetime"

fun unordered :: "pyval \<Rightarrow> bool" where
  "unordered (PyNaN sheet i j) = True"
| "unordered PyNaT = True"
| "unordered v = False"

fun num_key :: "pyval \<Rightarrow> rat" where
  "num_key v = (case num_val v of Some r \<Rightarrow> r | None \<Rightarrow> 0)"

fun seq_key :: "pyval \<Rightarrow> nat list" where
  "seq_key (PyStr s) = s"
| "seq_key (PyDatetime y mo d h mi s us) = [y, mo, d, h, mi, s, us]"
| "seq_key (PyDate y mo d) = [y, mo, d]"
| "seq_key (PyTime h mi s us) = [h, mi, s, us]"
| "seq_key v = []"

definition sort_without_order :: "runtime \<Rightarrow> pyval list \<Rightarrow> pyval list" where
  "sort_without_order rt xs = (if length xs = 2 then xs else sort_unordered rt xs)"

definition py_sorted :: "runtime \<Rightarrow> pyval list \<Rightarrow> error + pyval list" where
  "py_sorted rt xs =
     (if length xs \<le> 1 then Inr xs
      else if list_all (\<lambda>x. kind_of x = KNum) xs
        then Inr (if list_ex unordered xs then sort_without_order rt xs
                  else sort_key num_key xs)
      else if kind_of (hd xs) \<noteq> KNone \<and> list_all (\<lambda>x. kind_of x = kind_of (hd xs)) xs
        then Inr (if list_ex unordered xs then sort_without_order rt xs
                  else sort_key seq_key xs)
      else Inl TypeError)"

text \<open>\<^verbatim>\<open>f"{v}"\<close>, the text of a value.\<close>

fun py_str :: "runtime \<Rightarrow> pyval \<Rightarrow> pystr" where
  "py_str rt PyNone = py ''None''"
| "py_str rt (PyStr s) = s"
| "py_str rt (PyInt i) = str_int i"
| "py_str rt (PyFloat r) = repr_float rt r"
| "py_str rt (PyBool b) = (if b then py ''True'' else py ''False'')"
| "py_str rt (PyDatetime y mo d h mi s us) = iso_datetime (py '' '') y mo d h mi s us"
| "py_str rt (PyDate y mo d) = iso_date y mo d"
| "py_str rt (PyTime h mi s us) = iso_time h mi s us"
| "py_str rt (PyNaN sheet i j) = py ''nan''"
| "py_str rt PyNaT = py ''NaT''"

text \<open>The loop \<^verbatim>\<open>for m in ...: f.write(f"- {m}\n")\<close>.\<close>

definition bullets :: "runtime \<Rightarrow> pyval list \<Rightarrow> pystr" where
  "bullets rt xs = concat (map (\<lambda>m. py ''- '' @ py_str rt m @ nl) xs)"

text \<open>
  Lines 65 to 72: what \<^verbatim>\<open>movements.md\<close> holds when the \<^verbatim>\<open>with\<close> block is left,
  and the exception that left it, if one did.
\<close>

definition write_movements ::
  "runtime \<Rightarrow> pyval list \<Rightarrow> pyval list \<Rightarrow> pystr \<times> error option" where
  "write_movements rt main accessory =
     (let t0 = py ''# Movements Reference'' @ nl @ nl @ py ''## Main Movements'' @ nl in
      case py_sorted rt (iter_set rt main) of
        Inl e \<Rightarrow> (t0, Some e)
      | Inr ms \<Rightarrow>
          (let t1 = t0 @ bullets rt ms @
                    nl @ py ''## Accessory/Finisher Movements'' @ nl in
           case py_sorted rt (iter_set rt accessory) of
             Inl e \<Rightarrow> (t1, Some e)
           | Inr as \<Rightarrow> (t1 @ bullets rt as, None)))"

text \<open>Lines 74 to 77 and 79 to 82: a title and one sorted list.\<close>

definition write_listing ::
  "runtime \<Rightarrow> pystr \<Rightarrow> pyval list \<Rightarrow> pystr \<times> error option" where
  "write_listing rt title xs =
     (let t0 = title @ nl @ nl in
      case py_sorted rt (iter_set rt xs) of
        Inl e \<Rightarrow> (t0, Some e)
      | Inr ys \<Rightarrow> (t0 @ bullets rt ys, None))"

subsection \<open>The program\<close>

text \<open>
  What a file holds: text, a JSON document, or the beginning of a JSON document that
  \<^verbatim>\<open>json.dump\<close> left behind when it raised. The layout of the document in the file
  (\<^verbatim>\<open>indent=2\<close>) is a function of the document and is not modelled.
\<close>

datatype content = Text pystr | Json json | PartialJson

record world =
  files :: "pystr \<rightharpoonup> content"
  stdout :: "pystr list"
  raised :: "error option"

definition json_path :: pystr where
  "json_path = py ''workouts_data.json''"

definition movements_path :: pystr where
  "movements_path = py ''../docs/movements.md''"

definition formats_path :: pystr where
  "formats_path = py ''../docs/workout_formats.md''"

definition levels_path :: pystr where
  "levels_path = py ''../docs/intensity_levels.md''"

text \<open>Lines 33 to 38: the lines printed after the JSON file is written.\<close>

definition summary :: "(pystr, row list) dict \<Rightarrow> pystr list" where
  "summary sheets_data =
     [py ''Successfully parsed Excel file and saved to workouts_data.json'',
      nl @ py ''Sheet contents summary:''] @
     map (\<lambda>sd. fst sd @ py '': '' @ dec (length (snd sd)) @ py '' rows'') sheets_data"

text \<open>Lines 61 to 84, once the four sets are there.\<close>

definition write_docs :: "runtime \<Rightarrow> refsets \<Rightarrow> world \<Rightarrow> world" where
  "write_docs rt sets w =
     (case write_movements rt (main_movements sets) (accessory_movements sets) of
        (t, Some e) \<Rightarrow> w\<lparr>files := (files w)(movements_path \<mapsto> Text t), raised := Some e\<rparr>
      | (t, None) \<Rightarrow>
          (let w1 = w\<lparr>files := (files w)(movements_path \<mapsto> Text t)\<rparr> in
           case write_listing rt (py ''# Workout Formats Reference'')
                  (workout_formats sets) of
             (t, Some e) \<Rightarrow> w1\<lparr>files := (files w1)(formats_path \<mapsto> Text t), raised := Some e\<rparr>
           | (t, None) \<Rightarrow>
               (let w2 = w1\<lparr>files := (files w1)(formats_path \<mapsto> Text t)\<rparr> in
                case write_listing rt (py ''# Intensity Levels Reference'')
                       (intensity_levels sets) of
                  (t, Some e) \<Rightarrow>
                    w2\<lparr>files := (files w2)(levels_path \<mapsto> Text t), raised := Some e\<rparr>
                | (t, None) \<Rightarrow>
                    w2\<lparr>files := (files w2)(levels_path \<mapsto> Text t),
                       stdout := stdout w2 @
                         [nl @ py ''Extracted data saved to markdown files in docs/'']\<rparr>)))"

text \<open>
  \<^verbatim>\<open>parse_workouts_excel\<close> (lines 11 to 84). \<open>rt\<close> is the Python of this run,
  \<open>xlsx\<close> is the workbook at \<^verbatim>\<open>workouts.xlsx\<close>, \<open>None\<close> when there is no such
  file; \<open>fs\<close> is what the other files hold when the program starts. The result is the
  files, the printed lines and the exception that ended the run, if one did.
\<close>

definition parse_workouts_excel ::
  "runtime \<Rightarrow> workbook option \<Rightarrow> (pystr \<rightharpoonup> content) \<Rightarrow> world" where
  "parse_workouts_excel rt xlsx fs =
     (case xlsx of
        None \<Rightarrow>
          \<lparr>files = fs, stdout = [py ''Error: workouts.xlsx not found!''], raised = None\<rparr>
      | Some xl \<Rightarrow>
          (let sheets_data = read_sheets xl in
           case json_dump sheets_data of
             Inl e \<Rightarrow> \<lparr>files = fs(json_path \<mapsto> PartialJson), stdout = [], raised = Some e\<rparr>
           | Inr doc \<Rightarrow>
               (let w = \<lparr>files = fs(json_path \<mapsto> Json doc),
                         stdout = summary sheets_data, raised = None\<rparr> in
                case extract_references sheets_data of
                  Inl e \<Rightarrow> w\<lparr>raised := Some e\<rparr>
                | Inr sets \<Rightarrow> write_docs rt sets w)))"

subsection \<open>A small workbook\<close>

text \<open>
  A Python that prints a float with a whole value as its digits and \<^verbatim>\<open>.0\<close> (as
  Python does below \<open>10\<^sup>1\<^sup>6\<close>) and whose sets hand their members over in the
  order they came in.
\<close>

definition example_runtime :: runtime where
  "example_runtime =
     \<lparr>repr_float = (\<lambda>r. str_int \<lfloor>r\<rfloor> @ py ''.0''), slot = (\<lambda>v. 0),
      sort_unordered = (\<lambda>xs. xs)\<rparr>"

text \<open>Two sheets, with text, date-times, a date and an empty cell in a column of text.\<close>

definition example_workbook :: workbook where
  "example_workbook =
     [(py ''Week 1'',
       \<lparr>columns = [py ''Unnamed: 0'', py ''Unnamed: 3'', py ''Unnamed: 5'', py ''Unnamed: 7''],
        dtypes = [Datetime64, Object, Object, Object],
        rows = [[Cell (PyDatetime 2024 1 15 0 0 0 0), Cell (PyStr (py ''Squat'')),
                 Cell (PyStr (py ''Push-ups, Burpees'')), Cell (PyStr (py ''Hard''))],
                [Cell (PyDatetime 2024 1 17 6 30 0 0), Cell (PyStr (py ''Deadlift'')), NaN,
                 Cell (PyStr (py ''Easy''))]]\<rparr>),
      (py ''Week 2'',
       \<lparr>columns = [py ''Unnamed: 0'', py ''Unnamed: 8'', py ''Unnamed: 9''],
        dtypes = [Object, Object, Object],
        rows = [[Cell (PyDate 2024 1 22), Cell (PyStr (py ''AMRAP'')),
                 Cell (PyStr (py ''Plank , Burpees''))]]\<rparr>)]"

definition example_sheets_data :: "(pystr, row list) dict" where
  "example_sheets_data =
     [(py ''Week 1'',
       [[(py ''Unnamed: 0'', PyDatetime 2024 1 15 0 0 0 0),
         (py ''Unnamed: 3'', PyStr (py ''Squat'')),
         (py ''Unnamed: 5'', PyStr (py ''Push-ups, Burpees'')),
         (py ''Unnamed: 7'', PyStr (py ''Hard''))],
        [(py ''Unnamed: 0'', PyDatetime 2024 1 17 6 30 0 0),
         (py ''Unnamed: 3'', PyStr (py ''Deadlift'')),
         (py ''Unnamed: 5'', PyNone),
         (py ''Unnamed: 7'', PyStr (py ''Easy''))]]),
      (py ''Week 2'',
       [[(py ''Unnamed: 0'', PyDate 2024 1 22),
         (py ''Unnamed: 8'', PyStr (py ''AMRAP'')),
         (py ''Unnamed: 9'', PyStr (py ''Plank , Burpees''))]])]"

definition example_document :: json where
  "example_document =
     JObj [(py ''Week 1'',
            JArr [JObj [(py ''Unnamed: 0'', JStr (py ''2024-01-15T00:00:00'')),
                        (py ''Unnamed: 3'', JStr (py ''Squat'')),
                        (py ''Unnamed: 5'', JStr (py ''Push-ups, Burpees'')),
                        (py ''Unnamed: 7'', JStr (py ''Hard''))],
                  JObj [(py ''Unnamed: 0'', JStr (py ''2024-01-17T06:30:00'')),
                        (py ''Unnamed: 3'', JStr (py ''Deadlift'')),
                        (py ''Unnamed: 5'', JNull),
                        (py ''Unnamed: 7'', JStr (py ''Easy''))]]),
           (py ''Week 2'',
            JArr [JObj [(py ''Unnamed: 0'', JStr (py ''2024-01-22'')),
                        (py ''Unnamed: 8'', JStr (py ''AMRAP'')),
                        (py ''Unnamed: 9'', JStr (py ''Plank , Burpees''))]])]"

subsection \<open>Reading the document\<close>




text \<open>
  \<open>doc_rel P sheets_data doc\<close>: the document is an object with the sheets' names as keys,
  in their order; under each name stands an array with one object per row, and every
  object holds the row's labels in their order, each with a value that \<open>P\<close> relates to
  the cell. So \<open>P\<close> holds at every depth of the structure.
\<close>

definition doc_rel ::
  "(pyval \<Rightarrow> json \<Rightarrow> bool) \<Rightarrow> (pystr, row list) dict \<Rightarrow> json \<Rightarrow> bool" where
  "doc_rel P sheets_data doc \<longleftrightarrow>
     (\<exists>kvs. doc = JObj kvs \<and>
        list_all2 (\<lambda>sd kv. fst kv = fst sd \<and>
          (\<exists>js. snd kv = JArr js \<and>
             list_all2 (\<lambda>row jr. \<exists>items. jr = JObj items \<and>
               list_all2 (\<lambda>cv item. fst item = fst cv \<and> P (snd cv) (snd item)) row items)
             (snd sd) js))
        sheets_data kvs)"


definition blank_workbook :: workbook where
  "blank_workbook =
     [(py ''Sheet1'',
       \<lparr>columns = [py ''Unnamed: 0'', py ''Unnamed: 3'', py ''Unnamed: 7''],
        dtypes = [Datetime64, Object, Float64],
        rows = [[Cell (PyDatetime 2024 1 15 0 0 0 0), Cell (PyStr (py ''Squat'')),
                 Cell (PyFloat 6)],
                [NaN, NaN, NaN]]\<rparr>)]"

definition blank_sheets :: "(pystr, row list) dict" where
  "blank_sheets =
     [(py ''Sheet1'',
       [[(py ''Unnamed: 0'', PyDatetime 2024 1 15 0 0 0 0),
         (py ''Unnamed: 3'', PyStr (py ''Squat'')),
         (py ''Unnamed: 7'', PyFloat 6)],
        [(py ''Unnamed: 0'', PyNaT),
         (py ''Unnamed: 3'', PyNone),
         (py ''Unnamed: 7'', PyNaN (py ''Sheet1'') 1 2)]])]"

definition blank_document :: json where
  "blank_document =
     JObj [(py ''Sheet1'',
            JArr [JObj [(py ''Unnamed: 0'', JStr (py ''2024-01-15T00:00:00'')),
                        (py ''Unnamed: 3'', JStr (py ''Squat'')),
                        (py ''Unnamed: 7'', JFloat 6)],
                  JObj [(py ''Unnamed: 0'', JStr (py ''NaT'')),
                        (py ''Unnamed: 3'', JNull),
                        (py ''Unnamed: 7'', JNaN)]])]"

subsection \<open>What the reference sets hold\<close>

text \<open>A string with no white space at either end.\<close>

definition trimmed :: "pystr \<Rightarrow> bool" where
  "trimmed s \<longleftrightarrow> s = [] \<or> (\<not> isspace (hd s) \<and> \<not> isspace (last s))"

text \<open>No two members equal in Python's sense: what a \<^verbatim>\<open>set\<close> promises.\<close>

fun py_distinct :: "pyval list \<Rightarrow> bool" where
  "py_distinct [] = True"
| "py_distinct (x # xs) = (\<not> list_ex (\<lambda>y. py_eq x y) xs \<and> py_distinct xs)"

text \<open>
  The stripped comma segments of the text under label \<open>k\<close> of a row, and the value of
  the cell under \<open>k\<close> taken whole; both empty when the label is absent or its value is
  false (\<^verbatim>\<open>None\<close>, the empty string, zero).
\<close>

definition segments :: "row \<Rightarrow> pystr \<Rightarrow> pystr list" where
  "segments row k =
     (case truthy_cell row k of
        Some (PyStr t) \<Rightarrow> map strip (split_on comma t)
      | _ \<Rightarrow> [])"

definition whole :: "row \<Rightarrow> pystr \<Rightarrow> pyval list" where
  "whole row k = (case truthy_cell row k of Some v \<Rightarrow> [v] | None \<Rightarrow> [])"

text \<open>The rows of all sheets, in the order the loops visit them.\<close>

definition all_rows :: "(pystr, row list) dict \<Rightarrow> row list" where
  "all_rows sheets_data = concat (map snd sheets_data)"

text \<open>A row whose true cells in the two accessory columns are text.\<close>

definition accessory_text :: "row \<Rightarrow> bool" where
  "accessory_text row \<longleftrightarrow>
     (case truthy_cell row (py ''Unnamed: 5'') of None \<Rightarrow> True | Some v \<Rightarrow> kind_of v = KStr) \<and>
     (case truthy_cell row (py ''Unnamed: 9'') of None \<Rightarrow> True | Some v \<Rightarrow> kind_of v = KStr)"

text \<open>The four sets of the small workbook, and two more inputs for the extractor.\<close>

definition example_sets :: refsets where
  "example_sets =
     \<lparr>main_movements = [PyStr (py ''Squat''), PyStr (py ''Deadlift'')],
      accessory_movements = [PyStr (py ''Push-ups''), PyStr (py ''Burpees''), PyStr (py ''Plank'')],
      workout_formats = [PyStr (py ''AMRAP'')],
      intensity_levels = [PyStr (py ''Hard''), PyStr (py ''Easy'')]\<rparr>"

definition spaced_sheets :: "(pystr, row list) dict" where
  "spaced_sheets = [(py ''Sheet1'', [[(py ''Unnamed: 3'', PyStr (py '' Squat ''))]])]"




text \<open>
  A workbook with a number in the main movement column and a number in an accessory
  column, what the program makes of it, and rows with numbers outside the accessory
  columns.
\<close>

definition number_workbook :: workbook where
  "number_workbook =
     [(py ''Sheet1'',
       \<lparr>columns = [py ''Unnamed: 3'', py ''Unnamed: 5''],
        dtypes = [Object, Object],
        rows = [[Cell (PyInt 5), Cell (PyInt 3)]]\<rparr>)]"

definition number_sheets :: "(pystr, row list) dict" where
  "number_sheets =
     [(py ''Sheet1'', [[(py ''Unnamed: 3'', PyInt 5), (py ''Unnamed: 5'', PyInt 3)]])]"

definition number_document :: json where
  "number_document =
     JObj [(py ''Sheet1'', JArr [JObj [(py ''Unnamed: 3'', JInt 5), (py ''Unnamed: 5'', JInt 3)]])]"


definition number_main_sheets :: "(pystr, row list) dict" where
  "number_main_sheets =
     [(py ''Sheet1'', [[(py ''Unnamed: 3'', PyInt 5), (py ''Unnamed: 7'', PyFloat (7 / 2))]])]"

text \<open>
  For the markdown files: a value that is text; the bullet lines \<^verbatim>\<open>- item\<close> of a list
  of strings; the texts of a set in the order of Python's strings; and the file
  \<^verbatim>\<open>movements.md\<close> of the small workbook.
\<close>

definition is_text :: "pyval \<Rightarrow> bool" where
  "is_text v \<longleftrightarrow> kind_of v = KStr"

definition bullet_lines :: "pystr list \<Rightarrow> pystr" where
  "bullet_lines ts = concat (map (\<lambda>t. py ''- '' @ t @ nl) ts)"

definition texts_in_order :: "pyval list \<Rightarrow> pystr list" where
  "texts_in_order xs = sort (map seq_key xs)"

definition example_movements_md :: pystr where
  "example_movements_md =
     py ''# Movements Reference'' @ nl @ nl @
     py ''## Main Movements'' @ nl @
     py ''- Deadlift'' @ nl @
     py ''- Squat'' @ nl @
     nl @ py ''## Accessory/Finisher Movements'' @ nl @
     py ''- Burpees'' @ nl @
     py ''- Plank'' @ nl @
     py ''- Push-ups'' @ nl"

text \<open>
  Two workbooks for the order of the lists: one with the numbers 9 and 10 under
  \<^verbatim>\<open>Unnamed: 7\<close>, one with a text and a number under \<^verbatim>\<open>Unnamed: 3\<close>.
\<close>

definition rpe_workbook :: workbook where
  "rpe_workbook =
     [(py ''Sheet1'',
       \<lparr>columns = [py ''Unnamed: 7''], dtypes = [Object],
        rows = [[Cell (PyInt 9)], [Cell (PyInt 10)]]\<rparr>)]"

definition mixed_workbook :: workbook where
  "mixed_workbook =
     [(py ''Sheet1'',
       \<lparr>columns = [py ''Unnamed: 3''], dtypes = [Object],
        rows = [[Cell (PyStr (py ''Squat''))], [Cell (PyInt 5)]]\<rparr>)]"

text \<open>
  Two ways a set may hand over its members: the floats that are not numbers first, or
  last.
\<close>

definition nan_first :: "pyval \<Rightarrow> nat" where
  "nan_first v = (if unordered v then 0 else 1)"

definition nan_last :: "pyval \<Rightarrow> nat" where
  "nan_last v = (if unordered v then 1 else 0)"

section \<open>Properties\<close>

subsection \<open>Strings\<close>

lemma py_append: "py (a @ b) = py a @ py b"
  by (simp add: py_def)

text \<open>
  C1: when \<^verbatim>\<open>workouts.xlsx\<close> does not exist, the program prints one line, an error
  message that contains the file name, and returns: no exception, and every file holds
  what it held before, so neither the JSON file nor a markdown file is written.
\<close>

theorem missing_input_file:
  "stdout (parse_workouts_excel rt None fs) =
     [py ''Error: '' @ py ''workouts.xlsx'' @ py '' not found!''] \<and>
   raised (parse_workouts_excel rt None fs) = None \<and>
   files (parse_workouts_excel rt None fs) = fs"
  by (simp add: parse_workouts_excel_def py_def)

subsection \<open>Dictionaries and loops\<close>

lemma dict_set_new: "k \<notin> fst ` set d \<Longrightarrow> dict_set d k v = d @ [(k, v)]"
  by (induction d) auto

lemma fold_dict_set_distinct:
  "distinct (map fst acc @ map fst kvs) \<Longrightarrow>
   fold (\<lambda>(k, v) d. dict_set d k (g v)) kvs acc = acc @ map (\<lambda>(k, v). (k, g v)) kvs"
proof (induction kvs arbitrary: acc)
  case Nil
  then show ?case by simp
next
  case (Cons kv kvs)
  obtain k v where kv: "kv = (k, v)" by (cases kv)
  from Cons.prems kv have new: "k \<notin> fst ` set acc" by auto
  from Cons.prems kv have "distinct (map fst (acc @ [(k, g v)]) @ map fst kvs)" by auto
  from Cons.IH [OF this] show ?case
    by (simp add: kv dict_set_new [OF new])
qed

lemma fold_dict_set_keyed:
  "distinct (map fst acc @ map fst kvs) \<Longrightarrow>
   fold (\<lambda>(k, v) d. dict_set d k (g k v)) kvs acc = acc @ map (\<lambda>(k, v). (k, g k v)) kvs"
proof (induction kvs arbitrary: acc)
  case Nil
  then show ?case by simp
next
  case (Cons kv kvs)
  obtain k v where kv: "kv = (k, v)" by (cases kv)
  from Cons.prems kv have new: "k \<notin> fst ` set acc" by auto
  from Cons.prems kv have "distinct (map fst (acc @ [(k, g k v)]) @ map fst kvs)" by auto
  from Cons.IH [OF this] show ?case
    by (simp add: kv dict_set_new [OF new])
qed

lemma read_sheets_distinct:
  "distinct (map fst xl) \<Longrightarrow> read_sheets xl = map (\<lambda>(n, df). (n, to_dict_records n df)) xl"
  unfolding read_sheets_def using fold_dict_set_keyed [of "[]" xl to_dict_records] by simp

lemma length_to_dict_records: "length (to_dict_records n df) = length (rows df)"
  by (simp add: to_dict_records_def)

lemma mapE_Inr: "mapE f xs = Inr ys \<Longrightarrow> list_all2 (\<lambda>x y. f x = Inr y) xs ys"
  by (induction xs arbitrary: ys) (auto split: sum.splits)

lemma mapE_length: "mapE f xs = Inr ys \<Longrightarrow> length ys = length xs"
  by (induction xs arbitrary: ys) (auto split: sum.splits)

subsection \<open>The JSON file\<close>

lemma paths_distinct:
  "json_path \<noteq> movements_path" "json_path \<noteq> formats_path" "json_path \<noteq> levels_path"
  "movements_path \<noteq> formats_path" "movements_path \<noteq> levels_path"
  "formats_path \<noteq> levels_path"
  by (simp_all add: json_path_def movements_path_def formats_path_def levels_path_def py_def)

lemma files_write_docs_json: "files (write_docs rf sets w) json_path = files w json_path"
  by (simp add: write_docs_def paths_distinct Let_def split: prod.splits option.splits)

lemma json_file:
  "files (parse_workouts_excel rf (Some xl) fs) json_path =
     Some (case json_dump (read_sheets xl) of Inl e \<Rightarrow> PartialJson | Inr doc \<Rightarrow> Json doc)"
  by (simp add: parse_workouts_excel_def Let_def files_write_docs_json split: sum.splits)

lemma json_sheet_Inr:
  "json_sheet nd = Inr kv \<Longrightarrow>
   fst kv = fst nd \<and> (\<exists>js. snd kv = JArr js \<and> length js = length (snd nd))"
  by (auto simp: json_sheet_def mapE_length split: sum.splits)

subsection \<open>The small workbook, evaluated\<close>

lemmas eval_defs = py_def read_sheets_def to_dict_records_def dict_of_def dtype_of_def
  json_dump_def json_sheet_def json_row_def json_item_def json_value_def
  iso_datetime_def iso_date_def iso_time_def zpad_def

lemma example_names: "distinct (map fst example_workbook)"
  by (simp add: example_workbook_def py_def)

lemma example_read: "read_sheets example_workbook = example_sheets_data"
  by (simp add: example_workbook_def example_sheets_data_def eval_defs)

lemma example_dump: "json_dump example_sheets_data = Inr example_document"
  by (simp add: example_sheets_data_def example_document_def eval_defs)

lemma example_json_file:
  "files (parse_workouts_excel rf (Some example_workbook) fs) json_path =
     Some (Json example_document)"
  by (simp add: json_file example_read example_dump)

text \<open>
  C2: when the sheet names of the workbook are distinct (a workbook has no two sheets of
  one name) and \<^verbatim>\<open>json.dump\<close> has written its document, the document is an object
  with one key per sheet, the keys are the sheet names in the workbook's order, and the
  value under each name is an array with one element per row of that sheet.
\<close>

theorem json_document_shape:
  assumes "distinct (map fst xl)"
    and "files (parse_workouts_excel rt (Some xl) fs) json_path = Some (Json doc)"
  shows "\<exists>kvs. doc = JObj kvs \<and> length kvs = length xl \<and> map fst kvs = map fst xl \<and>
           list_all2 (\<lambda>sheet kv. \<exists>js. snd kv = JArr js \<and> length js = length (rows (snd sheet)))
             xl kvs"
proof -
  let ?sd = "map (\<lambda>(n, df). (n, to_dict_records n df)) xl"
  from assms have dump: "json_dump ?sd = Inr doc"
    by (simp add: json_file read_sheets_distinct split: sum.splits)
  then obtain kvs where doc: "doc = JObj kvs" and kvs: "mapE json_sheet ?sd = Inr kvs"
    by (auto simp: json_dump_def split: sum.splits)
  from mapE_Inr [OF kvs] have rel: "list_all2 (\<lambda>x y. json_sheet x = Inr y) ?sd kvs" .
  have len: "length kvs = length xl"
    using mapE_length [OF kvs] by simp
  have each: "fst (kvs ! i) = fst (xl ! i) \<and>
      (\<exists>js. snd (kvs ! i) = JArr js \<and> length js = length (rows (snd (xl ! i))))"
    if i: "i < length xl" for i
  proof -
    from i rel have "json_sheet (?sd ! i) = Inr (kvs ! i)"
      by (simp add: list_all2_conv_all_nth)
    from json_sheet_Inr [OF this] i show ?thesis
      by (simp add: length_to_dict_records split: prod.splits)
  qed
  have keys: "map fst kvs = map fst xl"
    using len each by (simp add: list_eq_iff_nth_eq)
  have shape:
    "list_all2 (\<lambda>sheet kv. \<exists>js. snd kv = JArr js \<and> length js = length (rows (snd sheet))) xl kvs"
    using len each by (simp add: list_all2_conv_all_nth)
  from doc len keys shape show ?thesis by blast
qed

theorem json_document_shape_witness:
  "distinct (map fst example_workbook) \<and>
   files (parse_workouts_excel example_runtime (Some example_workbook) Map.empty) json_path =
     Some (Json example_document) \<and>
   (\<exists>kvs. example_document = JObj kvs \<and> length kvs = length example_workbook \<and>
      map fst kvs = map fst example_workbook \<and>
      list_all2 (\<lambda>sheet kv. \<exists>js. snd kv = JArr js \<and> length js = length (rows (snd sheet)))
        example_workbook kvs)"
  using json_document_shape [OF example_names example_json_file] example_names example_json_file
  by blast

subsection \<open>Every cell in the document\<close>







lemma doc_rel_mono:
  assumes "doc_rel P sheets_data doc" and "\<And>v j. P v j \<Longrightarrow> Q v j"
  shows "doc_rel Q sheets_data doc"
proof -
  from assms(1) obtain kvs where doc: "doc = JObj kvs" and
    r: "list_all2 (\<lambda>sd kv. fst kv = fst sd \<and>
          (\<exists>js. snd kv = JArr js \<and>
             list_all2 (\<lambda>row jr. \<exists>items. jr = JObj items \<and>
               list_all2 (\<lambda>cv item. fst item = fst cv \<and> P (snd cv) (snd item)) row items)
             (snd sd) js)) sheets_data kvs"
    unfolding doc_rel_def by blast
  have "list_all2 (\<lambda>sd kv. fst kv = fst sd \<and>
          (\<exists>js. snd kv = JArr js \<and>
             list_all2 (\<lambda>row jr. \<exists>items. jr = JObj items \<and>
               list_all2 (\<lambda>cv item. fst item = fst cv \<and> Q (snd cv) (snd item)) row items)
             (snd sd) js)) sheets_data kvs"
    apply (rule list_all2_mono [OF r])
    apply (elim conjE exE)
    apply (intro conjI exI, assumption, assumption)
    apply (erule list_all2_mono)
    apply (elim conjE exE)
    apply (intro conjI exI, assumption)
    apply (erule list_all2_mono)
    apply (simp add: assms(2))
    done
  with doc show ?thesis unfolding doc_rel_def by blast
qed

lemma json_file_written:
  "files (parse_workouts_excel rf (Some xl) fs) json_path = Some (Json doc) \<Longrightarrow>
   json_dump (read_sheets xl) = Inr doc"
  by (simp add: json_file split: sum.splits)











subsection \<open>The reference sets\<close>

lemma py_eq_refl: "py_eq v v"
  by (cases v) (simp_all add: py_eq_def)

lemma py_eq_sym: "py_eq a b \<Longrightarrow> py_eq b a"
  by (auto simp: py_eq_def split: option.splits)

lemma py_eq_str: "py_eq y (PyStr t) \<longleftrightarrow> y = PyStr t"
  by (cases y) (simp_all add: py_eq_def)

lemma strip_trimmed: "trimmed (strip s)"
proof -
  let ?a = "dropWhile isspace s"
  let ?b = "dropWhile isspace (rev ?a)"
  show ?thesis
  proof (cases "?b = []")
    case True
    then show ?thesis by (simp add: strip_def trimmed_def)
  next
    case False
    then have hb: "\<not> isspace (hd ?b)" by (rule hd_dropWhile)
    from False have a: "?a \<noteq> []" by (metis dropWhile.simps(1) rev.simps(1))
    then have ha: "\<not> isspace (hd ?a)" by (rule hd_dropWhile)
    obtain pre where pre: "rev ?a = pre @ ?b" 
      by (metis takeWhile_dropWhile_id)
    then have "?a = rev ?b @ rev pre" by (metis rev_append rev_rev_ident)
    with False have "hd (rev ?b) = hd ?a" by (metis hd_append2 rev_is_Nil_conv)
    with ha have h1: "\<not> isspace (hd (rev ?b))" by simp
    from False hb have h2: "\<not> isspace (last (rev ?b))" by (simp add: last_rev)
    from h1 h2 show ?thesis by (simp add: strip_def trimmed_def)
  qed
qed

lemma list_ex_py_eq_str: "list_ex (\<lambda>y. py_eq y (PyStr t)) s \<longleftrightarrow> PyStr t \<in> set s"
  by (auto simp: list_ex_iff py_eq_str)

lemma set_set_add_str: "set (set_add s (PyStr t)) = insert (PyStr t) (set s)"
  by (auto simp: set_add_def list_ex_py_eq_str)

lemma set_set_add_sub: "set (set_add s v) \<subseteq> insert v (set s)"
  by (auto simp: set_add_def)

lemma set_set_add_mono: "set s \<subseteq> set (set_add s v)"
  by (auto simp: set_add_def)

lemma set_add_covers: "\<exists>u \<in> set (set_add s v). py_eq u v"
  by (auto simp: set_add_def list_ex_iff py_eq_refl)

lemma py_distinct_snoc:
  "py_distinct (s @ [x]) \<longleftrightarrow> py_distinct s \<and> \<not> list_ex (\<lambda>y. py_eq y x) s"
  by (induction s) (auto simp: list_ex_iff dest: py_eq_sym)

lemma py_distinct_set_add: "py_distinct s \<Longrightarrow> py_distinct (set_add s v)"
  by (simp add: set_add_def py_distinct_snoc)

lemma py_distinct_distinct: "py_distinct s \<Longrightarrow> distinct s"
  by (induction s) (auto simp: list_ex_iff py_eq_refl)

lemma fold_set_add_str:
  "set (fold (\<lambda>m a. set_add a (PyStr (f m))) ms acc) = set acc \<union> PyStr ` f ` set ms"
  by (induction ms arbitrary: acc) (auto simp: set_set_add_str)

lemma fold_set_add_distinct:
  "py_distinct acc \<Longrightarrow> py_distinct (fold (\<lambda>m a. set_add a (g m)) ms acc)"
  by (induction ms arbitrary: acc) (auto simp: py_distinct_set_add)

lemma add_split_cell_set:
  "add_split_cell row k acc = Inr acc' \<Longrightarrow> set acc' = set acc \<union> PyStr ` set (segments row k)"
  by (auto simp: add_split_cell_def add_split_def segments_def fold_set_add_str
           split: option.splits pyval.splits)

lemma add_split_cell_distinct:
  "add_split_cell row k acc = Inr acc' \<Longrightarrow> py_distinct acc \<Longrightarrow> py_distinct acc'"
  by (auto simp: add_split_cell_def add_split_def fold_set_add_distinct
           split: option.splits pyval.splits)

lemma add_split_cell_Inr_iff:
  "(\<exists>acc'. add_split_cell row k acc = Inr acc') \<longleftrightarrow>
   (case truthy_cell row k of None \<Rightarrow> True | Some v \<Rightarrow> kind_of v = KStr)"
  by (auto simp: add_split_cell_def add_split_def split: option.splits pyval.splits)

lemma add_split_cell_error:
  "add_split_cell row k acc = Inl e \<Longrightarrow> e = AttributeError"
  by (auto simp: add_split_cell_def add_split_def split: option.splits pyval.splits)

lemma add_cell_sub: "set (add_cell row k s) \<subseteq> set s \<union> set (whole row k)"
  using set_set_add_sub by (auto simp: add_cell_def whole_def split: option.splits)

lemma add_cell_mono: "set s \<subseteq> set (add_cell row k s)"
  using set_set_add_mono by (auto simp: add_cell_def split: option.splits)

lemma add_cell_covers: "v \<in> set (whole row k) \<Longrightarrow> \<exists>u \<in> set (add_cell row k s). py_eq u v"
  using set_add_covers by (auto simp: add_cell_def whole_def split: option.splits)

lemma add_cell_distinct: "py_distinct s \<Longrightarrow> py_distinct (add_cell row k s)"
  by (auto simp: add_cell_def py_distinct_set_add split: option.splits)


lemma extract_row_Inr:
  assumes "extract_row row s = Inr s'"
  shows "main_movements s' = add_cell row (py ''Unnamed: 3'') (main_movements s) \<and>
         (\<exists>acc5. add_split_cell row (py ''Unnamed: 5'') (accessory_movements s) = Inr acc5 \<and>
                 add_split_cell row (py ''Unnamed: 9'') acc5 = Inr (accessory_movements s')) \<and>
         workout_formats s' = add_cell row (py ''Unnamed: 8'') (workout_formats s) \<and>
         intensity_levels s' = add_cell row (py ''Unnamed: 7'') (intensity_levels s)"
  using assms by (auto simp: extract_row_def Let_def split: sum.splits)

lemma extract_row_error: "extract_row row s = Inl e \<Longrightarrow> e = AttributeError"
  by (auto simp: extract_row_def Let_def split: sum.splits dest: add_split_cell_error)

lemma foldE_append:
  "foldE f (xs @ ys) s = (case foldE f xs s of Inl e \<Rightarrow> Inl e | Inr s' \<Rightarrow> foldE f ys s')"
  by (induction xs arbitrary: s) (auto split: sum.splits)

lemma foldE_concat:
  "foldE (\<lambda>sd. foldE g (snd sd)) sds s = foldE g (concat (map snd sds)) s"
  by (induction sds arbitrary: s) (auto simp: foldE_append split: sum.splits)

lemma extract_references_rows:
  "extract_references sheets_data = foldE extract_row (all_rows sheets_data) empty_sets"
  by (simp add: extract_references_def all_rows_def foldE_concat)

lemma foldE_accessory:
  "foldE extract_row rs s = Inr s' \<Longrightarrow>
   set (accessory_movements s') =
     set (accessory_movements s) \<union>
     PyStr ` (\<Union>row \<in> set rs. set (segments row (py ''Unnamed: 5'')) \<union>
                               set (segments row (py ''Unnamed: 9'')))"
proof (induction rs arbitrary: s)
  case Nil
  then show ?case by simp
next
  case (Cons row rs)
  from Cons.prems obtain s1 where s1: "extract_row row s = Inr s1"
    and rest: "foldE extract_row rs s1 = Inr s'"
    by (auto split: sum.splits)
  from extract_row_Inr [OF s1] obtain acc5 where
    a5: "add_split_cell row (py ''Unnamed: 5'') (accessory_movements s) = Inr acc5" and
    a9: "add_split_cell row (py ''Unnamed: 9'') acc5 = Inr (accessory_movements s1)"
    by blast
  have "set (accessory_movements s1) =
          set (accessory_movements s) \<union> PyStr ` set (segments row (py ''Unnamed: 5'')) \<union>
          PyStr ` set (segments row (py ''Unnamed: 9''))"
    using add_split_cell_set [OF a5] add_split_cell_set [OF a9] by simp
  with Cons.IH [OF rest] show ?case by auto
qed

lemma foldE_whole_sub:
  "foldE extract_row rs s = Inr s' \<Longrightarrow>
   set (main_movements s') \<subseteq>
     set (main_movements s) \<union> (\<Union>row \<in> set rs. set (whole row (py ''Unnamed: 3''))) \<and>
   set (workout_formats s') \<subseteq>
     set (workout_formats s) \<union> (\<Union>row \<in> set rs. set (whole row (py ''Unnamed: 8''))) \<and>
   set (intensity_levels s') \<subseteq>
     set (intensity_levels s) \<union> (\<Union>row \<in> set rs. set (whole row (py ''Unnamed: 7'')))"
proof (induction rs arbitrary: s)
  case Nil
  then show ?case by simp
next
  case (Cons row rs)
  from Cons.prems obtain s1 where s1: "extract_row row s = Inr s1"
    and rest: "foldE extract_row rs s1 = Inr s'"
    by (auto split: sum.splits)
  note r = extract_row_Inr [OF s1]
  have m: "set (main_movements s1) \<subseteq> set (main_movements s) \<union> set (whole row (py ''Unnamed: 3''))"
    using r add_cell_sub by simp
  have f: "set (workout_formats s1) \<subseteq> set (workout_formats s) \<union> set (whole row (py ''Unnamed: 8''))"
    using r add_cell_sub by simp
  have l: "set (intensity_levels s1) \<subseteq> set (intensity_levels s) \<union> set (whole row (py ''Unnamed: 7''))"
    using r add_cell_sub by simp
  from Cons.IH [OF rest] m f l show ?case by auto
qed

lemma foldE_mono:
  "foldE extract_row rs s = Inr s' \<Longrightarrow>
   set (main_movements s) \<subseteq> set (main_movements s') \<and>
   set (workout_formats s) \<subseteq> set (workout_formats s') \<and>
   set (intensity_levels s) \<subseteq> set (intensity_levels s')"
proof (induction rs arbitrary: s)
  case Nil
  then show ?case by simp
next
  case (Cons row rs)
  from Cons.prems obtain s1 where s1: "extract_row row s = Inr s1"
    and rest: "foldE extract_row rs s1 = Inr s'"
    by (auto split: sum.splits)
  note r = extract_row_Inr [OF s1]
  have "set (main_movements s) \<subseteq> set (main_movements s1)"
       "set (workout_formats s) \<subseteq> set (workout_formats s1)"
       "set (intensity_levels s) \<subseteq> set (intensity_levels s1)"
    using r add_cell_mono by simp_all
  with Cons.IH [OF rest] show ?case by blast
qed

lemma foldE_covers:
  "foldE extract_row rs s = Inr s' \<Longrightarrow> row \<in> set rs \<Longrightarrow>
   (v \<in> set (whole row (py ''Unnamed: 3'')) \<longrightarrow> (\<exists>u \<in> set (main_movements s'). py_eq u v)) \<and>
   (v \<in> set (whole row (py ''Unnamed: 8'')) \<longrightarrow> (\<exists>u \<in> set (workout_formats s'). py_eq u v)) \<and>
   (v \<in> set (whole row (py ''Unnamed: 7'')) \<longrightarrow> (\<exists>u \<in> set (intensity_levels s'). py_eq u v))"
proof (induction rs arbitrary: s)
  case Nil
  then show ?case by simp
next
  case (Cons r rs)
  from Cons.prems(1) obtain s1 where s1: "extract_row r s = Inr s1"
    and rest: "foldE extract_row rs s1 = Inr s'"
    by (auto split: sum.splits)
  show ?case
  proof (cases "row = r")
    case True
    note e = extract_row_Inr [OF s1]
    note mono = foldE_mono [OF rest]
    have "v \<in> set (whole row (py ''Unnamed: 3'')) \<longrightarrow> (\<exists>u \<in> set (main_movements s1). py_eq u v)"
      using e add_cell_covers True by simp
    moreover have "v \<in> set (whole row (py ''Unnamed: 8'')) \<longrightarrow> (\<exists>u \<in> set (workout_formats s1). py_eq u v)"
      using e add_cell_covers True by simp
    moreover have "v \<in> set (whole row (py ''Unnamed: 7'')) \<longrightarrow> (\<exists>u \<in> set (intensity_levels s1). py_eq u v)"
      using e add_cell_covers True by simp
    ultimately show ?thesis using mono by blast
  next
    case False
    with Cons.prems(2) have "row \<in> set rs" by simp
    from Cons.IH [OF rest this] show ?thesis .
  qed
qed

lemma foldE_distinct:
  "foldE extract_row rs s = Inr s' \<Longrightarrow>
   py_distinct (main_movements s) \<Longrightarrow> py_distinct (accessory_movements s) \<Longrightarrow>
   py_distinct (workout_formats s) \<Longrightarrow> py_distinct (intensity_levels s) \<Longrightarrow>
   py_distinct (main_movements s') \<and> py_distinct (accessory_movements s') \<and>
   py_distinct (workout_formats s') \<and> py_distinct (intensity_levels s')"
proof (induction rs arbitrary: s)
  case Nil
  then show ?case by simp
next
  case (Cons row rs)
  from Cons.prems(1) obtain s1 where s1: "extract_row row s = Inr s1"
    and rest: "foldE extract_row rs s1 = Inr s'"
    by (auto split: sum.splits)
  from extract_row_Inr [OF s1] obtain acc5 where
    m: "main_movements s1 = add_cell row (py ''Unnamed: 3'') (main_movements s)" and
    a5: "add_split_cell row (py ''Unnamed: 5'') (accessory_movements s) = Inr acc5" and
    a9: "add_split_cell row (py ''Unnamed: 9'') acc5 = Inr (accessory_movements s1)" and
    f: "workout_formats s1 = add_cell row (py ''Unnamed: 8'') (workout_formats s)" and
    l: "intensity_levels s1 = add_cell row (py ''Unnamed: 7'') (intensity_levels s)"
    by blast
  have d1: "py_distinct (main_movements s1)" using m Cons.prems(2) by (simp add: add_cell_distinct)
  have d2: "py_distinct (accessory_movements s1)"
    using add_split_cell_distinct [OF a9 add_split_cell_distinct [OF a5 Cons.prems(3)]] .
  have d3: "py_distinct (workout_formats s1)" using f Cons.prems(4) by (simp add: add_cell_distinct)
  have d4: "py_distinct (intensity_levels s1)" using l Cons.prems(5) by (simp add: add_cell_distinct)
  from Cons.IH [OF rest d1 d2 d3 d4] show ?case .
qed

lemma foldE_total:
  "(\<exists>s'. foldE extract_row rs s = Inr s') \<longleftrightarrow>
   list_all (\<lambda>row.
      (case truthy_cell row (py ''Unnamed: 5'') of None \<Rightarrow> True | Some v \<Rightarrow> kind_of v = KStr) \<and>
      (case truthy_cell row (py ''Unnamed: 9'') of None \<Rightarrow> True | Some v \<Rightarrow> kind_of v = KStr)) rs"
proof (induction rs arbitrary: s)
  case Nil
  then show ?case by simp
next
  case (Cons row rs)
  have row: "(\<exists>s1. extract_row row s = Inr s1) \<longleftrightarrow>
      (case truthy_cell row (py ''Unnamed: 5'') of None \<Rightarrow> True | Some v \<Rightarrow> kind_of v = KStr) \<and>
      (case truthy_cell row (py ''Unnamed: 9'') of None \<Rightarrow> True | Some v \<Rightarrow> kind_of v = KStr)"
  proof -
    have e: "(\<exists>s1. extract_row row s = Inr s1) \<longleftrightarrow>
        (\<exists>acc5. add_split_cell row (py ''Unnamed: 5'') (accessory_movements s) = Inr acc5 \<and>
           (\<exists>acc9. add_split_cell row (py ''Unnamed: 9'') acc5 = Inr acc9))"
      by (auto simp: extract_row_def Let_def split: sum.splits)
    show ?thesis
      unfolding e add_split_cell_Inr_iff
      using add_split_cell_Inr_iff [of row "py ''Unnamed: 5''" "accessory_movements s"]
      by blast
  qed
  show ?case
  proof (cases "extract_row row s")
    case (Inl e)
    with row show ?thesis by auto
  next
    case (Inr s1)
    with row Cons.IH [of s1] show ?thesis by auto
  qed
qed

lemmas extract_defs = extract_references_def extract_row_def add_cell_def add_split_cell_def
  add_split_def truthy_cell_def set_add_def py_eq_def strip_def isspace_def comma_def
  empty_sets_def py_def Let_def

lemma example_extract: "extract_references example_sheets_data = Inr example_sets"
  by (simp add: example_sheets_data_def example_sets_def extract_defs)

text \<open>
  C3, as stated, fails: a main movement cell \<^verbatim>\<open>" Squat "\<close> is stored with its
  blanks, since only the comma segments of the accessory columns go through
  \<^verbatim>\<open>strip()\<close>.
\<close>

theorem untrimmed_main_movement:
  "extract_references spaced_sheets =
     Inr \<lparr>main_movements = [PyStr (py '' Squat '')], accessory_movements = [],
          workout_formats = [], intensity_levels = []\<rparr> \<and>
   \<not> trimmed (py '' Squat '')"
  by (simp add: spaced_sheets_def extract_defs trimmed_def)


lemma py_distinct_empty:
  "py_distinct (main_movements empty_sets)" "py_distinct (accessory_movements empty_sets)"
  "py_distinct (workout_formats empty_sets)" "py_distinct (intensity_levels empty_sets)"
  by (simp_all add: empty_sets_def)

lemma segments_trimmed: "t \<in> set (segments row k) \<Longrightarrow> trimmed t"
  by (auto simp: segments_def strip_trimmed split: option.splits pyval.splits)

text \<open>
  C3, amended: after the extraction every member of the accessory set is a string with
  no white space at either end; none of the four sets holds two equal members; and the
  members of the main movement, format and intensity sets are cell values of their
  columns as they stand in the rows.
\<close>

theorem reference_sets_invariant:
  assumes "extract_references sheets_data = Inr sets"
  shows "(\<forall>v \<in> set (accessory_movements sets). \<exists>t. v = PyStr t \<and> trimmed t) \<and>
         py_distinct (main_movements sets) \<and> py_distinct (accessory_movements sets) \<and>
         py_distinct (workout_formats sets) \<and> py_distinct (intensity_levels sets) \<and>
         set (main_movements sets) \<subseteq>
           (\<Union>row \<in> set (all_rows sheets_data). set (whole row (py ''Unnamed: 3''))) \<and>
         set (workout_formats sets) \<subseteq>
           (\<Union>row \<in> set (all_rows sheets_data). set (whole row (py ''Unnamed: 8''))) \<and>
         set (intensity_levels sets) \<subseteq>
           (\<Union>row \<in> set (all_rows sheets_data). set (whole row (py ''Unnamed: 7'')))"
proof -
  from assms have f: "foldE extract_row (all_rows sheets_data) empty_sets = Inr sets"
    by (simp add: extract_references_rows)
  have a: "\<forall>v \<in> set (accessory_movements sets). \<exists>t. v = PyStr t \<and> trimmed t"
    using foldE_accessory [OF f] segments_trimmed by (auto simp: empty_sets_def)
  have d: "py_distinct (main_movements sets) \<and> py_distinct (accessory_movements sets) \<and>
         py_distinct (workout_formats sets) \<and> py_distinct (intensity_levels sets)"
    by (rule foldE_distinct [OF f py_distinct_empty])
  have w: "set (main_movements sets) \<subseteq>
           (\<Union>row \<in> set (all_rows sheets_data). set (whole row (py ''Unnamed: 3''))) \<and>
         set (workout_formats sets) \<subseteq>
           (\<Union>row \<in> set (all_rows sheets_data). set (whole row (py ''Unnamed: 8''))) \<and>
         set (intensity_levels sets) \<subseteq>
           (\<Union>row \<in> set (all_rows sheets_data). set (whole row (py ''Unnamed: 7'')))"
    using foldE_whole_sub [OF f] by (simp add: empty_sets_def)
  from a d w show ?thesis by blast
qed

theorem reference_sets_invariant_witness:
  "extract_references example_sheets_data = Inr example_sets \<and>
   list_all (\<lambda>v. \<exists>t. v = PyStr t \<and> trimmed t) (accessory_movements example_sets) \<and>
   py_distinct (main_movements example_sets) \<and>
   py_distinct (accessory_movements example_sets) \<and>
   py_distinct (workout_formats example_sets) \<and>
   py_distinct (intensity_levels example_sets)"
  using reference_sets_invariant [OF example_extract] example_extract
  by (simp add: list_all_iff)

subsection \<open>The five columns\<close>










lemma example_rows:
  "all_rows example_sheets_data =
     [[(py ''Unnamed: 0'', PyDatetime 2024 1 15 0 0 0 0),
       (py ''Unnamed: 3'', PyStr (py ''Squat'')),
       (py ''Unnamed: 5'', PyStr (py ''Push-ups, Burpees'')),
       (py ''Unnamed: 7'', PyStr (py ''Hard''))],
      [(py ''Unnamed: 0'', PyDatetime 2024 1 17 6 30 0 0),
       (py ''Unnamed: 3'', PyStr (py ''Deadlift'')),
       (py ''Unnamed: 5'', PyNone),
       (py ''Unnamed: 7'', PyStr (py ''Easy''))],
      [(py ''Unnamed: 0'', PyDate 2024 1 22),
       (py ''Unnamed: 8'', PyStr (py ''AMRAP'')),
       (py ''Unnamed: 9'', PyStr (py ''Plank , Burpees''))]]"
  by (simp add: all_rows_def example_sheets_data_def)


lemma foldE_error: "foldE extract_row rs s = Inl e \<Longrightarrow> e = AttributeError"
proof (induction rs arbitrary: s)
  case Nil
  then show ?case by simp
next
  case (Cons row rs)
  then show ?case
    by (cases "extract_row row s") (auto dest: extract_row_error)
qed

lemma extract_total:
  "(\<exists>sets. extract_references sheets_data = Inr sets) \<longleftrightarrow>
   list_all accessory_text (all_rows sheets_data)"
  unfolding extract_references_rows foldE_total accessory_text_def ..

lemma parse_extract_fails:
  assumes "json_dump (read_sheets xl) = Inr doc"
    and "extract_references (read_sheets xl) = Inl e"
  shows "parse_workouts_excel rf (Some xl) fs =
           \<lparr>files = fs(json_path \<mapsto> Json doc), stdout = summary (read_sheets xl),
            raised = Some e\<rparr>"
  using assms by (simp add: parse_workouts_excel_def Let_def)

text \<open>
  C10: the extraction returns exactly when every true cell under \<^verbatim>\<open>Unnamed: 5\<close> and
  \<^verbatim>\<open>Unnamed: 9\<close>, in every row, is text; otherwise it raises \<^verbatim>\<open>AttributeError\<close>.
  By then the JSON file holds the whole document, and the run ends there: no other file
  is written. The cells under \<^verbatim>\<open>Unnamed: 3\<close>, \<^verbatim>\<open>Unnamed: 8\<close> and
  \<^verbatim>\<open>Unnamed: 7\<close> do not matter for that: a true value of any type there has an equal
  member in its set.
\<close>

theorem accessory_cells_must_be_text:
  "((\<exists>sets. extract_references sheets_data = Inr sets) \<longleftrightarrow>
      list_all accessory_text (all_rows sheets_data)) \<and>
   (extract_references sheets_data = Inl e \<longrightarrow> e = AttributeError) \<and>
   (json_dump (read_sheets xl) = Inr doc \<and>
    \<not> list_all accessory_text (all_rows (read_sheets xl)) \<longrightarrow>
      parse_workouts_excel rt (Some xl) fs =
        \<lparr>files = fs(json_path \<mapsto> Json doc), stdout = summary (read_sheets xl),
         raised = Some AttributeError\<rparr>) \<and>
   (extract_references sheets_data = Inr sets \<and> row \<in> set (all_rows sheets_data) \<longrightarrow>
      (truthy_cell row (py ''Unnamed: 3'') = Some v \<longrightarrow>
         (\<exists>u \<in> set (main_movements sets). py_eq u v)) \<and>
      (truthy_cell row (py ''Unnamed: 8'') = Some v \<longrightarrow>
         (\<exists>u \<in> set (workout_formats sets). py_eq u v)) \<and>
      (truthy_cell row (py ''Unnamed: 7'') = Some v \<longrightarrow>
         (\<exists>u \<in> set (intensity_levels sets). py_eq u v)))"
proof -
  have a: "(\<exists>sets. extract_references sheets_data = Inr sets) \<longleftrightarrow>
      list_all accessory_text (all_rows sheets_data)"
    by (rule extract_total)
  have b: "extract_references sheets_data = Inl e \<longrightarrow> e = AttributeError"
    by (auto simp: extract_references_rows dest: foldE_error)
  have c: "parse_workouts_excel rt (Some xl) fs =
        \<lparr>files = fs(json_path \<mapsto> Json doc), stdout = summary (read_sheets xl),
         raised = Some AttributeError\<rparr>"
    if dump: "json_dump (read_sheets xl) = Inr doc"
      and bad: "\<not> list_all accessory_text (all_rows (read_sheets xl))"
  proof -
    from bad extract_total [of "read_sheets xl"]
    obtain e' where e': "extract_references (read_sheets xl) = Inl e'"
      by (cases "extract_references (read_sheets xl)") auto
    then have "e' = AttributeError"
      by (auto simp: extract_references_rows dest: foldE_error)
    with parse_extract_fails [OF dump e'] show ?thesis by simp
  qed
  have d: "(truthy_cell row (py ''Unnamed: 3'') = Some v \<longrightarrow>
         (\<exists>u \<in> set (main_movements sets). py_eq u v)) \<and>
      (truthy_cell row (py ''Unnamed: 8'') = Some v \<longrightarrow>
         (\<exists>u \<in> set (workout_formats sets). py_eq u v)) \<and>
      (truthy_cell row (py ''Unnamed: 7'') = Some v \<longrightarrow>
         (\<exists>u \<in> set (intensity_levels sets). py_eq u v))"
    if ok: "extract_references sheets_data = Inr sets" and row: "row \<in> set (all_rows sheets_data)"
  proof -
    from ok have f: "foldE extract_row (all_rows sheets_data) empty_sets = Inr sets"
      by (simp add: extract_references_rows)
    from foldE_covers [OF f row, of v] show ?thesis
      by (simp add: whole_def)
  qed
  from a b c d show ?thesis by blast
qed

lemma number_read: "read_sheets number_workbook = number_sheets"
  by (simp add: number_workbook_def number_sheets_def eval_defs)

lemma number_dump: "json_dump number_sheets = Inr number_document"
  by (simp add: number_sheets_def number_document_def eval_defs)

lemma number_bad: "\<not> list_all accessory_text (all_rows number_sheets)"
  by (simp add: number_sheets_def all_rows_def accessory_text_def truthy_cell_def py_def)

lemma number_main_extract:
  "extract_references number_main_sheets =
     Inr \<lparr>main_movements = [PyInt 5], accessory_movements = [],
          workout_formats = [], intensity_levels = [PyFloat (7 / 2)]\<rparr>"
  by (simp add: number_main_sheets_def extract_defs)

theorem accessory_cells_must_be_text_witness:
  "json_dump (read_sheets number_workbook) = Inr number_document \<and>
   \<not> list_all accessory_text (all_rows (read_sheets number_workbook)) \<and>
   parse_workouts_excel example_runtime (Some number_workbook) Map.empty =
     \<lparr>files = [json_path \<mapsto> Json number_document],
      stdout = summary (read_sheets number_workbook),
      raised = Some AttributeError\<rparr> \<and>
   extract_references number_main_sheets =
     Inr \<lparr>main_movements = [PyInt 5], accessory_movements = [],
          workout_formats = [], intensity_levels = [PyFloat (7 / 2)]\<rparr> \<and>
   list_all accessory_text (all_rows number_main_sheets)"
proof -
  have dump: "json_dump (read_sheets number_workbook) = Inr number_document"
    by (simp add: number_read number_dump)
  have bad: "\<not> list_all accessory_text (all_rows (read_sheets number_workbook))"
    by (simp add: number_read number_bad)
  note t1 = accessory_cells_must_be_text [of number_main_sheets AttributeError number_workbook
      number_document example_runtime Map.empty]
  from t1 dump bad number_main_extract show ?thesis by simp
qed

subsection \<open>Empty cells\<close>

lemmas dump_defs = py_def json_dump_def json_sheet_def json_row_def json_item_def
  json_value_def iso_datetime_def iso_date_def iso_time_def zpad_def

lemmas write_defs = write_docs_def write_movements_def write_listing_def py_sorted_def
  iter_set_def sort_without_order_def bullets_def Let_def

lemma missing_cell_by_dtype:
  assumes "\<not> notna x"
  shows "json_value (where_notna Object nan x) = Inr JNull"
    and "json_value (where_notna Float64 (PyNaN sheet i j) x) = Inr JNaN"
    and "json_value (where_notna Datetime64 nan x) = Inr (JStr (py ''NaT''))"
  using assms by (cases x; simp add: json_value_def)+

lemma blank_read: "read_sheets blank_workbook = blank_sheets"
  by (simp add: blank_workbook_def blank_sheets_def eval_defs)

lemma blank_dump: "json_dump blank_sheets = Inr blank_document"
  by (simp add: blank_sheets_def blank_document_def eval_defs)

text \<open>
  C7 fails on the program: the empty cell of a column of numbers is not written as
  \<^verbatim>\<open>null\<close>. Line 25 is there to turn the missing cells into \<^verbatim>\<open>None\<close> (its
  comment says so), and it does in a column of text; in a \<^verbatim>\<open>float64\<close> column the
  cell stays not-a-number and the document holds the token \<^verbatim>\<open>NaN\<close>, in a
  \<^verbatim>\<open>datetime64\<close> column it stays \<^verbatim>\<open>NaT\<close> and the document holds the string
  \<^verbatim>\<open>"NaT"\<close>. The sheet below has one row that is filled and one that is empty.
\<close>

theorem empty_number_cell_is_not_null:
  "read_sheets blank_workbook = blank_sheets \<and>
   files (parse_workouts_excel rt (Some blank_workbook) fs) json_path =
     Some (Json blank_document)"
  by (simp add: json_file blank_read blank_dump)

subsection \<open>The markdown files\<close>

lemma mset_iter_set: "mset (iter_set rt s) = mset s"
  by (simp add: iter_set_def)

lemma set_iter_set: "set (iter_set rt s) = set s"
  by (simp add: iter_set_def)

lemma sort_map_iter_set: "sort (map f (iter_set rt s)) = sort (map f s)"
proof -
  have "mset (map f (iter_set rt s)) = mset (map f s)"
    by (simp add: mset_iter_set)
  then show ?thesis
    by (metis sorted_list_of_multiset_mset)
qed

lemma insort_key_map:
  "insort_key f (g x) (map g ys) = map g (insort_key (\<lambda>y. f (g y)) x ys)"
  by (induction ys) simp_all

lemma sort_key_map: "sort_key f (map g xs) = map g (sort_key (\<lambda>y. f (g y)) xs)"
  by (induction xs) (simp_all add: insort_key_map)

lemma text_list: "list_all is_text xs \<Longrightarrow> xs = map PyStr (map seq_key xs)"
proof (induction xs)
  case Nil
  then show ?case by simp
next
  case (Cons x xs)
  then show ?case by (cases x) (simp_all add: is_text_def)
qed

lemma text_ordered: "list_all is_text xs \<Longrightarrow> \<not> list_ex unordered xs"
proof (induction xs)
  case Nil
  then show ?case by simp
next
  case (Cons x xs)
  then show ?case by (cases x) (simp_all add: is_text_def)
qed

lemma sort_text:
  assumes "list_all is_text xs"
  shows "sort_key seq_key xs = map PyStr (sort (map seq_key xs))"
proof -
  have "sort_key seq_key (map PyStr (map seq_key xs)) = map PyStr (sort (map seq_key xs))"
    by (simp add: sort_key_map)
  with text_list [OF assms] show ?thesis by simp
qed

lemma short_sorted: "length xs \<le> 1 \<Longrightarrow> sort_key f xs = xs"
  by (cases xs) (simp_all)

lemma py_sorted_text:
  assumes "list_all is_text xs"
  shows "py_sorted rt xs = Inr (map PyStr (sort (map seq_key xs)))"
proof (cases "length xs \<le> 1")
  case True
  then have "py_sorted rt xs = Inr (sort_key seq_key xs)"
    by (simp add: py_sorted_def short_sorted)
  then show ?thesis by (simp add: sort_text [OF assms])
next
  case False
  then obtain x xs' where xs: "xs = x # xs'" by (cases xs) auto
  with assms have k: "kind_of x = KStr" and all: "list_all (\<lambda>v. kind_of v = KStr) xs"
    by (simp_all add: is_text_def list_all_iff)
  from k xs have notnum: "\<not> list_all (\<lambda>v. kind_of v = KNum) xs" by simp
  from False notnum k xs all text_ordered [OF assms]
  have "py_sorted rt xs = Inr (sort_key seq_key xs)"
    by (simp add: py_sorted_def)
  then show ?thesis by (simp add: sort_text [OF assms])
qed

lemma sorted_set_text:
  assumes "list_all is_text s"
  shows "py_sorted rt (iter_set rt s) = Inr (map PyStr (sort (map seq_key s)))"
proof -
  from assms have "list_all is_text (iter_set rt s)"
    by (simp add: list_all_iff set_iter_set)
  from py_sorted_text [OF this] show ?thesis
    by (simp add: sort_map_iter_set)
qed

lemma bullets_text: "bullets rt (map PyStr ts) = bullet_lines ts"
  by (simp add: bullets_def bullet_lines_def comp_def)

lemma write_movements_text:
  assumes "list_all is_text main" and "list_all is_text accessory"
  shows "write_movements rt main accessory =
           (py ''# Movements Reference'' @ nl @ nl @ py ''## Main Movements'' @ nl @
            bullet_lines (sort (map seq_key main)) @
            nl @ py ''## Accessory/Finisher Movements'' @ nl @
            bullet_lines (sort (map seq_key accessory)), None)"
  by (simp add: write_movements_def sorted_set_text [OF assms(1)] sorted_set_text [OF assms(2)]
        bullets_text Let_def)

lemma write_listing_text:
  assumes "list_all is_text xs"
  shows "write_listing rt title xs =
           (title @ nl @ nl @ bullet_lines (sort (map seq_key xs)), None)"
  by (simp add: write_listing_def sorted_set_text [OF assms] bullets_text Let_def)

lemma write_docs_text:
  assumes "list_all is_text (main_movements sets)" "list_all is_text (accessory_movements sets)"
    "list_all is_text (workout_formats sets)" "list_all is_text (intensity_levels sets)"
  shows "write_docs rf sets w =
     w\<lparr>files := (files w)
          (movements_path \<mapsto> Text (py ''# Movements Reference'' @ nl @ nl @
              py ''## Main Movements'' @ nl @
              bullet_lines (sort (map seq_key (main_movements sets))) @
              nl @ py ''## Accessory/Finisher Movements'' @ nl @
              bullet_lines (sort (map seq_key (accessory_movements sets)))),
           formats_path \<mapsto> Text (py ''# Workout Formats Reference'' @ nl @ nl @
              bullet_lines (sort (map seq_key (workout_formats sets)))),
           levels_path \<mapsto> Text (py ''# Intensity Levels Reference'' @ nl @ nl @
              bullet_lines (sort (map seq_key (intensity_levels sets))))),
        stdout := stdout w @ [nl @ py ''Extracted data saved to markdown files in docs/'']\<rparr>"
  by (simp add: write_docs_def write_movements_text [OF assms(1,2)]
        write_listing_text [OF assms(3)] write_listing_text [OF assms(4)] Let_def)

lemma accessory_is_text:
  assumes "extract_references sheets_data = Inr sets"
  shows "list_all is_text (accessory_movements sets)"
proof -
  from assms have f: "foldE extract_row (all_rows sheets_data) empty_sets = Inr sets"
    by (simp add: extract_references_rows)
  from foldE_accessory [OF f] show ?thesis
    by (auto simp: list_all_iff is_text_def empty_sets_def)
qed

lemma extracted_distinct:
  assumes "extract_references sheets_data = Inr sets"
  shows "py_distinct (main_movements sets) \<and> py_distinct (accessory_movements sets) \<and>
         py_distinct (workout_formats sets) \<and> py_distinct (intensity_levels sets)"
proof -
  from assms have f: "foldE extract_row (all_rows sheets_data) empty_sets = Inr sets"
    by (simp add: extract_references_rows)
  show ?thesis by (rule foldE_distinct [OF f py_distinct_empty])
qed

lemma texts_in_order:
  assumes "list_all is_text xs" and "py_distinct xs"
  shows "sorted (texts_in_order xs) \<and> distinct (texts_in_order xs) \<and>
         PyStr ` set (texts_in_order xs) = set xs"
proof -
  let ?ts = "map seq_key xs"
  from text_list [OF assms(1)] have xs: "xs = map PyStr ?ts" .
  from py_distinct_distinct [OF assms(2)] xs have "distinct (map PyStr ?ts)" by simp
  then have d: "distinct ?ts" by (metis distinct_map)
  have "PyStr ` set ?ts = set (map PyStr ?ts)" by (simp add: image_image)
  also have "\<dots> = set xs" using xs by simp
  finally have s: "PyStr ` set ?ts = set xs" .
  from d s show ?thesis by (simp add: texts_in_order_def)
qed

lemma rpe_read:
  "read_sheets rpe_workbook =
     [(py ''Sheet1'', [[(py ''Unnamed: 7'', PyInt 9)], [(py ''Unnamed: 7'', PyInt 10)]])]"
  by (simp add: rpe_workbook_def eval_defs)

lemma mixed_read:
  "read_sheets mixed_workbook =
     [(py ''Sheet1'', [[(py ''Unnamed: 3'', PyStr (py ''Squat''))], [(py ''Unnamed: 3'', PyInt 5)]])]"
  by (simp add: mixed_workbook_def eval_defs)

lemma rpe_levels:
  "files (parse_workouts_excel example_runtime (Some rpe_workbook) Map.empty) levels_path =
     Some (Text (py ''# Intensity Levels Reference'' @ nl @ nl @
                 py ''- 9'' @ nl @ py ''- 10'' @ nl))"
  by (simp add: parse_workouts_excel_def rpe_read dump_defs extract_defs write_defs
        example_runtime_def paths_distinct str_int_def)

lemma mixed_movements:
  "files (parse_workouts_excel example_runtime (Some mixed_workbook) Map.empty) movements_path =
     Some (Text (py ''# Movements Reference'' @ nl @ nl @ py ''## Main Movements'' @ nl))"
  "raised (parse_workouts_excel example_runtime (Some mixed_workbook) Map.empty) = Some TypeError"
  "files (parse_workouts_excel example_runtime (Some mixed_workbook) Map.empty) formats_path = None"
  by (simp_all add: parse_workouts_excel_def mixed_read dump_defs extract_defs write_defs
        example_runtime_def paths_distinct paths_distinct [symmetric])

text \<open>
  C8, as stated, fails: the sets hold the cell values as they are, and \<^verbatim>\<open>sorted\<close>
  orders numbers by value, so the intensity levels 9 and 10 are listed as \<^verbatim>\<open>- 9\<close>,
  \<^verbatim>\<open>- 10\<close>, which is not the lexicographic order of the two lines. With a text and
  a number among the main movements \<^verbatim>\<open>sorted\<close> raises \<^verbatim>\<open>TypeError\<close>, and
  \<^verbatim>\<open>movements.md\<close> ends after the heading of its first section.
\<close>

theorem numbers_are_sorted_by_value:
  "files (parse_workouts_excel example_runtime (Some rpe_workbook) Map.empty) levels_path =
     Some (Text (py ''# Intensity Levels Reference'' @ nl @ nl @
                 py ''- 9'' @ nl @ py ''- 10'' @ nl)) \<and>
   py ''10'' < py ''9'' \<and>
   files (parse_workouts_excel example_runtime (Some mixed_workbook) Map.empty) movements_path =
     Some (Text (py ''# Movements Reference'' @ nl @ nl @ py ''## Main Movements'' @ nl)) \<and>
   raised (parse_workouts_excel example_runtime (Some mixed_workbook) Map.empty) =
     Some TypeError"
  using rpe_levels mixed_movements by (simp add: py_def)

text \<open>
  C8, amended: when the run gets as far as the four sets and the main movement, format
  and intensity sets hold text (the accessory set always does), then, in whatever order
  the sets hand over their members, the run ends without an exception and \<^verbatim>\<open>movements.md\<close> holds the title, the section
  \<^verbatim>\<open>## Main Movements\<close> with one line \<^verbatim>\<open>- item\<close> per main movement, then the
  section \<^verbatim>\<open>## Accessory/Finisher Movements\<close> with one line per accessory movement;
  \<^verbatim>\<open>workout_formats.md\<close> and \<^verbatim>\<open>intensity_levels.md\<close> hold a title and one list
  each. Every list is in lexicographic order, without repetitions, and holds exactly
  the members of its set.
\<close>

theorem markdown_files_sorted:
  assumes dump: "json_dump (read_sheets xl) = Inr doc"
    and sets: "extract_references (read_sheets xl) = Inr sets"
    and main: "list_all is_text (main_movements sets)"
    and formats: "list_all is_text (workout_formats sets)"
    and levels: "list_all is_text (intensity_levels sets)"
  shows "files (parse_workouts_excel rt (Some xl) fs) movements_path =
           Some (Text (py ''# Movements Reference'' @ nl @ nl @
              py ''## Main Movements'' @ nl @
              bullet_lines (texts_in_order (main_movements sets)) @
              nl @ py ''## Accessory/Finisher Movements'' @ nl @
              bullet_lines (texts_in_order (accessory_movements sets)))) \<and>
         files (parse_workouts_excel rt (Some xl) fs) formats_path =
           Some (Text (py ''# Workout Formats Reference'' @ nl @ nl @
              bullet_lines (texts_in_order (workout_formats sets)))) \<and>
         files (parse_workouts_excel rt (Some xl) fs) levels_path =
           Some (Text (py ''# Intensity Levels Reference'' @ nl @ nl @
              bullet_lines (texts_in_order (intensity_levels sets)))) \<and>
         raised (parse_workouts_excel rt (Some xl) fs) = None \<and>
         sorted (texts_in_order (main_movements sets)) \<and>
         distinct (texts_in_order (main_movements sets)) \<and>
         PyStr ` set (texts_in_order (main_movements sets)) = set (main_movements sets) \<and>
         sorted (texts_in_order (accessory_movements sets)) \<and>
         distinct (texts_in_order (accessory_movements sets)) \<and>
         PyStr ` set (texts_in_order (accessory_movements sets)) =
           set (accessory_movements sets) \<and>
         sorted (texts_in_order (workout_formats sets)) \<and>
         distinct (texts_in_order (workout_formats sets)) \<and>
         PyStr ` set (texts_in_order (workout_formats sets)) = set (workout_formats sets) \<and>
         sorted (texts_in_order (intensity_levels sets)) \<and>
         distinct (texts_in_order (intensity_levels sets)) \<and>
         PyStr ` set (texts_in_order (intensity_levels sets)) = set (intensity_levels sets)"
proof -
  note acc = accessory_is_text [OF sets]
  note d = extracted_distinct [OF sets]
  let ?w = "\<lparr>files = fs(json_path \<mapsto> Json doc),
              stdout = summary (read_sheets xl), raised = None\<rparr>"
  have run: "parse_workouts_excel rt (Some xl) fs = write_docs rt sets ?w"
    using dump sets by (simp add: parse_workouts_excel_def Let_def)
  note w = write_docs_text [OF main acc formats levels, of rt ?w]
  have f1: "files (parse_workouts_excel rt (Some xl) fs) movements_path =
           Some (Text (py ''# Movements Reference'' @ nl @ nl @
              py ''## Main Movements'' @ nl @
              bullet_lines (texts_in_order (main_movements sets)) @
              nl @ py ''## Accessory/Finisher Movements'' @ nl @
              bullet_lines (texts_in_order (accessory_movements sets))))"
    unfolding run w by (simp add: paths_distinct texts_in_order_def)
  have f2: "files (parse_workouts_excel rt (Some xl) fs) formats_path =
           Some (Text (py ''# Workout Formats Reference'' @ nl @ nl @
              bullet_lines (texts_in_order (workout_formats sets))))"
    unfolding run w by (simp add: paths_distinct texts_in_order_def)
  have f3: "files (parse_workouts_excel rt (Some xl) fs) levels_path =
           Some (Text (py ''# Intensity Levels Reference'' @ nl @ nl @
              bullet_lines (texts_in_order (intensity_levels sets))))"
    unfolding run w by (simp add: paths_distinct texts_in_order_def)
  have r: "raised (parse_workouts_excel rt (Some xl) fs) = None"
    unfolding run w by simp
  from f1 f2 f3 r d texts_in_order [OF main] texts_in_order [OF acc]
    texts_in_order [OF formats] texts_in_order [OF levels]
  show ?thesis by simp
qed

lemma example_order:
  "texts_in_order (main_movements example_sets) = [py ''Deadlift'', py ''Squat'']"
  "texts_in_order (accessory_movements example_sets) =
     [py ''Burpees'', py ''Plank'', py ''Push-ups'']"
  by (simp_all add: texts_in_order_def example_sets_def py_def)

lemma example_text:
  "list_all is_text (main_movements example_sets)"
  "list_all is_text (workout_formats example_sets)"
  "list_all is_text (intensity_levels example_sets)"
  by (simp_all add: example_sets_def is_text_def)

theorem markdown_files_sorted_witness:
  "json_dump (read_sheets example_workbook) = Inr example_document \<and>
   extract_references (read_sheets example_workbook) = Inr example_sets \<and>
   list_all is_text (main_movements example_sets) \<and>
   list_all is_text (workout_formats example_sets) \<and>
   list_all is_text (intensity_levels example_sets) \<and>
   files (parse_workouts_excel example_runtime (Some example_workbook) Map.empty) movements_path =
     Some (Text example_movements_md) \<and>
   texts_in_order (main_movements example_sets) = [py ''Deadlift'', py ''Squat'']"
proof -
  have dump: "json_dump (read_sheets example_workbook) = Inr example_document"
    by (simp add: example_read example_dump)
  have sets: "extract_references (read_sheets example_workbook) = Inr example_sets"
    by (simp add: example_read example_extract)
  note t = markdown_files_sorted [OF dump sets example_text, of example_runtime Map.empty]
  from t have "files (parse_workouts_excel example_runtime (Some example_workbook) Map.empty)
      movements_path =
           Some (Text (py ''# Movements Reference'' @ nl @ nl @
              py ''## Main Movements'' @ nl @
              bullet_lines (texts_in_order (main_movements example_sets)) @
              nl @ py ''## Accessory/Finisher Movements'' @ nl @
              bullet_lines (texts_in_order (accessory_movements example_sets))))"
    by blast
  then have "files (parse_workouts_excel example_runtime (Some example_workbook) Map.empty)
      movements_path = Some (Text example_movements_md)"
    by (simp add: example_order bullet_lines_def example_movements_md_def py_def)
  with dump sets example_text example_order show ?thesis by simp
qed

subsection \<open>Running the program again\<close>

lemma blank_extract:
  "extract_references blank_sheets =
     Inr \<lparr>main_movements = [PyStr (py ''Squat'')], accessory_movements = [],
          workout_formats = [],
          intensity_levels = [PyFloat 6, PyNaN (py ''Sheet1'') 1 2]\<rparr>"
  by (simp add: blank_sheets_def extract_defs)

lemma blank_levels_first:
  "files (parse_workouts_excel (example_runtime\<lparr>slot := nan_first\<rparr>) (Some blank_workbook)
      Map.empty) levels_path =
     Some (Text (py ''# Intensity Levels Reference'' @ nl @ nl @
                 py ''- nan'' @ nl @ py ''- 6.0'' @ nl))"
  by (simp add: parse_workouts_excel_def blank_read blank_dump blank_extract write_defs
        example_runtime_def nan_first_def nan_last_def paths_distinct str_int_def py_def)


lemma blank_levels_last:
  "files (parse_workouts_excel (example_runtime\<lparr>slot := nan_last\<rparr>) (Some blank_workbook)
      Map.empty) levels_path =
     Some (Text (py ''# Intensity Levels Reference'' @ nl @ nl @
                 py ''- 6.0'' @ nl @ py ''- nan'' @ nl))"
  by (simp add: parse_workouts_excel_def blank_read blank_dump blank_extract write_defs
        example_runtime_def nan_first_def nan_last_def paths_distinct str_int_def py_def)

text \<open>
  C9 fails on the program, through the same empty cell: under \<^verbatim>\<open>Unnamed: 7\<close> it is
  a float that is not a number, it is true, so it joins the intensity set, and
  \<^verbatim>\<open>sorted\<close> cannot place it, since it is neither below nor above 6.0. The list in
  \<^verbatim>\<open>intensity_levels.md\<close> then comes out in the order in which the set hands over
  its two members, and Python does not fix that order: two runs on the same workbook
  that differ in nothing else write two different files.
\<close>

theorem empty_number_cell_unsettles_the_order:
  "files (parse_workouts_excel (example_runtime\<lparr>slot := nan_first\<rparr>) (Some blank_workbook)
      Map.empty) levels_path =
     Some (Text (py ''# Intensity Levels Reference'' @ nl @ nl @
                 py ''- nan'' @ nl @ py ''- 6.0'' @ nl)) \<and>
   files (parse_workouts_excel (example_runtime\<lparr>slot := nan_last\<rparr>) (Some blank_workbook)
      Map.empty) levels_path =
     Some (Text (py ''# Intensity Levels Reference'' @ nl @ nl @
                 py ''- 6.0'' @ nl @ py ''- nan'' @ nl)) \<and>
   files (parse_workouts_excel (example_runtime\<lparr>slot := nan_first\<rparr>) (Some blank_workbook)
      Map.empty) levels_path \<noteq>
   files (parse_workouts_excel (example_runtime\<lparr>slot := nan_last\<rparr>) (Some blank_workbook)
      Map.empty) levels_path"
  unfolding blank_levels_first blank_levels_last by (simp add: py_def nl_def)

end
